theory Spec2Isabelle
  imports Complex_Main
begin

section \<open>Python strings\<close>

text \<open>
  A Python \<^verbatim>\<open>str\<close> is a sequence of Unicode code points, so it is modelled as a list
  of natural numbers. \<open>ustr\<close> reads an ASCII literal; other code points are
  written as numbers (\<open>233\<close> is U+00E9, the letter e with an acute accent).
\<close>

type_synonym ustr = "nat list"

definition ustr :: "string \<Rightarrow> ustr" where
  "ustr s = map of_char s"

text \<open>
  The Unicode database is not part of the repository. What the code needs of it is
  taken as a parameter above Latin-1 and written out below it:
  \<^item> \<open>wide_alnum c\<close>: \<^verbatim>\<open>chr(c).isalnum()\<close> for \<open>c \<ge> 256\<close>;
  \<^item> \<open>wide_decimal c\<close>: \<^verbatim>\<open>chr(c).isdecimal()\<close> for \<open>c \<ge> 256\<close>;
  \<^item> \<open>wide_lower c\<close>: \<^verbatim>\<open>chr(c).lower()\<close> for \<open>c \<ge> 128\<close>.
\<close>

record unicode =
  wide_alnum :: "nat \<Rightarrow> bool"
  wide_decimal :: "nat \<Rightarrow> bool"
  wide_lower :: "nat \<Rightarrow> ustr"

definition latin1_alnum :: "nat \<Rightarrow> bool" where
  "latin1_alnum c \<longleftrightarrow>
     (48 \<le> c \<and> c \<le> 57) \<or> (65 \<le> c \<and> c \<le> 90) \<or> (97 \<le> c \<and> c \<le> 122) \<or>
     c = 170 \<or> c = 178 \<or> c = 179 \<or> c = 181 \<or> c = 185 \<or> c = 186 \<or>
     (188 \<le> c \<and> c \<le> 190) \<or> (192 \<le> c \<and> c \<le> 214) \<or>
     (216 \<le> c \<and> c \<le> 246) \<or> (248 \<le> c \<and> c \<le> 255)"

definition isalnum :: "unicode \<Rightarrow> nat \<Rightarrow> bool" where
  "isalnum U c = (if c < 256 then latin1_alnum c else wide_alnum U c)"

definition isdecimal :: "unicode \<Rightarrow> nat \<Rightarrow> bool" where
  "isdecimal U c = (if c < 256 then 48 \<le> c \<and> c \<le> 57 else wide_decimal U c)"

text \<open>The class \<^verbatim>\<open>\w\<close> of a \<^verbatim>\<open>str\<close> pattern: alphanumeric in Unicode, or the underscore.\<close>

definition is_word :: "unicode \<Rightarrow> nat \<Rightarrow> bool" where
  "is_word U c \<longleftrightarrow> isalnum U c \<or> c = 95"

text \<open>The class \<^verbatim>\<open>[A-Za-z0-9_-]\<close> that the specification names.\<close>

definition ascii_name_char :: "nat \<Rightarrow> bool" where
  "ascii_name_char c \<longleftrightarrow>
     (65 \<le> c \<and> c \<le> 90) \<or> (97 \<le> c \<and> c \<le> 122) \<or> (48 \<le> c \<and> c \<le> 57) \<or> c = 95 \<or> c = 45"

definition ascii_letter :: "nat \<Rightarrow> bool" where
  "ascii_letter c \<longleftrightarrow> (65 \<le> c \<and> c \<le> 90) \<or> (97 \<le> c \<and> c \<le> 122)"

text \<open>\<^verbatim>\<open>str.isspace\<close>, the characters that \<^verbatim>\<open>str.strip()\<close> removes.\<close>

definition isspace :: "nat \<Rightarrow> bool" where
  "isspace c \<longleftrightarrow>
     (9 \<le> c \<and> c \<le> 13) \<or> (28 \<le> c \<and> c \<le> 32) \<or> c = 133 \<or> c = 160 \<or> c = 5760 \<or>
     (8192 \<le> c \<and> c \<le> 8202) \<or> c = 8232 \<or> c = 8233 \<or> c = 8239 \<or> c = 8287 \<or> c = 12288"

definition strip :: "ustr \<Rightarrow> ustr" where
  "strip s = rev (dropWhile isspace (rev (dropWhile isspace s)))"

definition lower_char :: "unicode \<Rightarrow> nat \<Rightarrow> ustr" where
  "lower_char U c =
     (if 65 \<le> c \<and> c \<le> 90 then [c + 32] else if c < 128 then [c] else wide_lower U c)"

definition lower :: "unicode \<Rightarrow> ustr \<Rightarrow> ustr" where
  "lower U s = concat (map (lower_char U) s)"

definition startswith :: "ustr \<Rightarrow> ustr \<Rightarrow> bool" where
  "startswith s p \<longleftrightarrow> take (length p) s = p"

text \<open>\<^verbatim>\<open>s.replace(' ', '_')\<close>: one character for one character.\<close>

definition replace_space :: "ustr \<Rightarrow> ustr" where
  "replace_space s = map (\<lambda>c. if c = 32 then 95 else c) s"

text \<open>\<^verbatim>\<open>str(n)\<close> of a non-negative integer, and the format \<^verbatim>\<open>{n:02d}\<close>.\<close>

fun dec :: "nat \<Rightarrow> ustr" where
  "dec n = (if n < 10 then [48 + n] else dec (n div 10) @ [48 + n mod 10])"

declare dec.simps [simp del]

definition dec02 :: "nat \<Rightarrow> ustr" where
  "dec02 n = (if n < 10 then 48 # dec n else dec n)"

section \<open>Regular expressions\<close>

text \<open>
  The patterns of the source are values of \<open>rexp\<close>. \<^verbatim>\<open>bool(re.match(r, s))\<close> holds
  when \<open>r\<close> matches some prefix of \<open>s\<close>; it is computed with derivatives, and
  \<open>re_match_lang\<close> below relates it to the language of the pattern.
\<close>

datatype rexp =
  Zero
  | Eps
  | Cls "nat \<Rightarrow> bool"
  | Seq rexp rexp
  | Alt rexp rexp
  | Star rexp

fun nullable :: "rexp \<Rightarrow> bool" where
  "nullable Zero = False"
| "nullable Eps = True"
| "nullable (Cls P) = False"
| "nullable (Seq r s) = (nullable r \<and> nullable s)"
| "nullable (Alt r s) = (nullable r \<or> nullable s)"
| "nullable (Star r) = True"

fun deriv :: "nat \<Rightarrow> rexp \<Rightarrow> rexp" where
  "deriv c Zero = Zero"
| "deriv c Eps = Zero"
| "deriv c (Cls P) = (if P c then Eps else Zero)"
| "deriv c (Seq r s) =
     (if nullable r then Alt (Seq (deriv c r) s) (deriv c s) else Seq (deriv c r) s)"
| "deriv c (Alt r s) = Alt (deriv c r) (deriv c s)"
| "deriv c (Star r) = Seq (deriv c r) (Star r)"

fun re_match :: "rexp \<Rightarrow> ustr \<Rightarrow> bool" where
  "re_match r [] = nullable r"
| "re_match r (c # cs) = (nullable r \<or> re_match (deriv c r) cs)"

definition chr :: "nat \<Rightarrow> rexp" where
  "chr c = Cls (\<lambda>x. x = c)"

fun lit :: "ustr \<Rightarrow> rexp" where
  "lit [] = Eps"
| "lit (c # cs) = Seq (chr c) (lit cs)"

definition opt :: "rexp \<Rightarrow> rexp" where
  "opt r = Alt r Eps"

definition plus :: "rexp \<Rightarrow> rexp" where
  "plus r = Seq r (Star r)"

text \<open>The language of a pattern, to say what \<open>re_match\<close> computes.\<close>

inductive_set star :: "ustr set \<Rightarrow> ustr set" for L :: "ustr set" where
  star_empty: "[] \<in> star L"
| star_step: "u \<in> L \<Longrightarrow> v \<in> star L \<Longrightarrow> u @ v \<in> star L"

fun lang :: "rexp \<Rightarrow> ustr set" where
  "lang Zero = {}"
| "lang Eps = {[]}"
| "lang (Cls P) = {[c] | c. P c}"
| "lang (Seq r s) = {u @ v | u v. u \<in> lang r \<and> v \<in> lang s}"
| "lang (Alt r s) = lang r \<union> lang s"
| "lang (Star r) = star (lang r)"

section \<open>Filename sanitization\<close>

text \<open>
  \<^verbatim>\<open>re.sub(r'[^\w\-]', '_', s)\<close>: the pattern matches one character at a time,
  so the substitution is a map over the string.
\<close>

definition sanitize :: "unicode \<Rightarrow> ustr \<Rightarrow> ustr" where
  "sanitize U s = map (\<lambda>c. if is_word U c \<or> c = 45 then c else 95) s"

section \<open>Paths\<close>

text \<open>
  \<^verbatim>\<open>os.path\<close> on a POSIX system: the separator is \<open>/\<close> (47), the extension
  separator is \<open>.\<close> (46). \<open>rfind\<close> is \<^verbatim>\<open>str.rfind\<close> for one character.
\<close>

type_synonym path = ustr

definition rfind :: "nat \<Rightarrow> ustr \<Rightarrow> int" where
  "rfind c s =
     (if c \<in> set s then int (length s) - 1 - int (length (takeWhile (\<lambda>x. x \<noteq> c) (rev s)))
      else - 1)"

definition basename :: "path \<Rightarrow> ustr" where
  "basename p = drop (nat (rfind 47 p + 1)) p"

text \<open>
  \<^verbatim>\<open>os.path.splitext(p)[0]\<close>: the path up to its last dot, when that dot is in the last
  component and some character other than a dot stands before it there.
\<close>

definition splitext_root :: "path \<Rightarrow> ustr" where
  "splitext_root p =
     (let sepIndex = rfind 47 p; dotIndex = rfind 46 p in
      if dotIndex > sepIndex \<and>
         list_ex (\<lambda>c. c \<noteq> 46) (drop (nat (sepIndex + 1)) (take (nat dotIndex) p))
      then take (nat dotIndex) p else p)"

definition path_join :: "path \<Rightarrow> ustr \<Rightarrow> path" where
  "path_join a b =
     (if startswith b [47] then b
      else if a = [] \<or> last a = 47 then a @ b
      else a @ [47] @ b)"

section \<open>Cleaning the Markdown of the AI response\<close>

definition fence :: ustr where
  "fence = [96, 96, 96]"

text \<open>
  A match of \<^verbatim>\<open>```[a-zA-Z]*\n\<close> at the start of \<open>s\<close>, as what follows the match. The
  letters are matched greedily and no letter is a newline, so the pattern matches exactly
  when the longest run of letters after the backticks is followed by a newline.
\<close>

definition match_open :: "ustr \<Rightarrow> ustr option" where
  "match_open s =
     (if startswith s fence then
        (case dropWhile ascii_letter (drop 3 s) of
           [] \<Rightarrow> None
         | c # rest \<Rightarrow> if c = 10 then Some rest else None)
      else None)"

text \<open>A match of \<^verbatim>\<open>```\n?\<close> at the start of \<open>s\<close>, as what follows the match.\<close>

definition match_fence :: "ustr \<Rightarrow> ustr option" where
  "match_fence s =
     (if startswith s fence then
        Some (case drop 3 s of [] \<Rightarrow> [] | c # rest \<Rightarrow> if c = 10 then rest else c # rest)
      else None)"

lemma match_open_shorter: "match_open s = Some rest \<Longrightarrow> length rest < length s"
proof -
  assume m: "match_open s = Some rest"
  then have "dropWhile ascii_letter (drop 3 s) = 10 # rest"
    by (auto simp: match_open_def split: if_splits list.splits)
  then have "length (10 # rest) \<le> length (drop 3 s)"
    by (metis length_dropWhile_le)
  then show ?thesis by simp
qed

lemma startswith_length: "startswith s p \<Longrightarrow> length p \<le> length s"
proof -
  assume "startswith s p"
  then have "take (length p) s = p"
    by (simp only: startswith_def)
  then have "length (take (length p) s) = length p"
    by (rule arg_cong)
  then show ?thesis by simp
qed

lemma startswith_fence_length: "startswith s fence \<Longrightarrow> 3 \<le> length s"
  using startswith_length [of s fence] by (simp add: fence_def)

lemma match_fence_shorter: "match_fence s = Some rest \<Longrightarrow> length rest < length s"
proof -
  assume m: "match_fence s = Some rest"
  then have s: "startswith s fence"
    by (simp add: match_fence_def split: if_splits)
  have "length (case drop 3 s of [] \<Rightarrow> [] | c # r \<Rightarrow> if c = 10 then r else c # r)
          \<le> length (drop 3 s)"
    by (cases "drop 3 s") simp_all
  with m s have "length rest \<le> length (drop 3 s)"
    by (simp add: match_fence_def)
  with startswith_fence_length [OF s] show ?thesis by simp
qed

text \<open>
  \<^verbatim>\<open>re.sub(pattern, '', s)\<close> scans from the left: where the pattern matches, the match
  is dropped and the scan goes on after it; elsewhere one character is kept.
\<close>

function sub_open :: "ustr \<Rightarrow> ustr" where
  "sub_open [] = []"
| "sub_open (c # cs) =
     (case match_open (c # cs) of
        Some rest \<Rightarrow> sub_open rest
      | None \<Rightarrow> c # sub_open cs)"
  by pat_completeness auto
termination
  by (relation "measure length") (auto dest: match_open_shorter)

function sub_fence :: "ustr \<Rightarrow> ustr" where
  "sub_fence [] = []"
| "sub_fence (c # cs) =
     (case match_fence (c # cs) of
        Some rest \<Rightarrow> sub_fence rest
      | None \<Rightarrow> c # sub_fence cs)"
  by pat_completeness auto
termination
  by (relation "measure length") (auto dest: match_fence_shorter)

definition clean_markdown :: "ustr \<Rightarrow> ustr" where
  "clean_markdown text = strip (sub_fence (sub_open text))"

section \<open>Recognising URLs\<close>

text \<open>
  \<^verbatim>\<open>(https?://)?(www\.)?(youtube|youtu|youtube-nocookie)\.(com|be)/\<close>, matched with
  \<^verbatim>\<open>re.match\<close> and no flag: at the start of the string, case-sensitively.
\<close>

definition youtube_regex :: rexp where
  "youtube_regex =
     Seq (opt (Seq (lit (ustr ''http'')) (Seq (opt (chr 115)) (lit (ustr ''://'')))))
    (Seq (opt (lit (ustr ''www.'')))
    (Seq (Alt (lit (ustr ''youtube'')) (Alt (lit (ustr ''youtu'')) (lit (ustr ''youtube-nocookie''))))
    (Seq (chr 46)
    (Seq (Alt (lit (ustr ''com'')) (lit (ustr ''be'')))
         (chr 47)))))"

definition is_youtube_url :: "ustr \<Rightarrow> bool" where
  "is_youtube_url url = re_match youtube_regex url"

text \<open>\<^verbatim>\<open>https?://(?:[-\w.]|(?:%[\da-fA-F]{2}))+\<close>\<close>

definition hex_digit :: "unicode \<Rightarrow> nat \<Rightarrow> bool" where
  "hex_digit U c \<longleftrightarrow> isdecimal U c \<or> (97 \<le> c \<and> c \<le> 102) \<or> (65 \<le> c \<and> c \<le> 70)"

definition url_regex :: "unicode \<Rightarrow> rexp" where
  "url_regex U =
     Seq (lit (ustr ''http'')) (Seq (opt (chr 115)) (Seq (lit (ustr ''://''))
       (plus (Alt (Cls (\<lambda>c. c = 45 \<or> is_word U c \<or> c = 46))
                  (Seq (chr 37) (Seq (Cls (hex_digit U)) (Cls (hex_digit U))))))))"

definition is_url :: "unicode \<Rightarrow> ustr \<Rightarrow> bool" where
  "is_url U url = re_match (url_regex U) url"

text \<open>\<^verbatim>\<open>__format_duration\<close>; the duration is a non-negative number of seconds.\<close>

definition format_duration :: "rat \<Rightarrow> ustr" where
  "format_duration seconds =
     (let hours = nat \<lfloor>seconds / 3600\<rfloor>;
          minutes = nat \<lfloor>(seconds - 3600 * of_int \<lfloor>seconds / 3600\<rfloor>) / 60\<rfloor>;
          secs = nat \<lfloor>seconds - 60 * of_int \<lfloor>seconds / 60\<rfloor>\<rfloor>
      in dec02 hours @ [58] @ dec02 minutes @ [58] @ dec02 secs)"

section \<open>The surroundings of a run\<close>

text \<open>
  What a run reads and changes outside the program text is explicit. The \<open>world\<close> is
  what the code changes: the regular files of local storage with their contents, the log,
  and the decoder handles that are open. The \<open>env\<close> is what the code only reads: the
  attributes of the instance, the clock, and the answers of the collaborators (audio
  decoding and encoding, the video platform, HTTP, the AI service, the PDF renderer), each
  of which either returns or raises.
\<close>

type_synonym bytes = "char list"

text \<open>
  What is raised is an instance of \<^verbatim>\<open>Exception\<close>, the class that every \<^verbatim>\<open>except\<close>
  clause of the source catches: an exception of a collaborator, with its message, or the
  \<^verbatim>\<open>UnboundLocalError\<close> of a local variable read before any assignment. Interrupts
  (\<^verbatim>\<open>KeyboardInterrupt\<close>, \<^verbatim>\<open>SystemExit\<close>) are not modelled.
\<close>

datatype exn = Exception ustr | UnboundLocalError ustr

text \<open>\<^verbatim>\<open>str(e)\<close>\<close>

definition str_exn :: "exn \<Rightarrow> ustr" where
  "str_exn e =
     (case e of
        Exception m \<Rightarrow> m
      | UnboundLocalError v \<Rightarrow>
          ustr ''cannot access local variable '' @ [39] @ v @ [39] @
          ustr '' where it is not associated with a value'')"

datatype 'a res = Val 'a | Raise exn

datatype level = INFO | ERROR

record clip =
  reader :: nat
  audio_data :: bytes
  duration :: rat
  faded :: bool

text \<open>
  A response of \<^verbatim>\<open>requests.get(url, stream=True)\<close>: its status, the pieces that
  \<^verbatim>\<open>iter_content(chunk_size=n)\<close> yields for a chunk size \<open>n\<close> (the transport decides
  how the body is cut, and a piece may be shorter than \<open>n\<close>), and the error that the
  iteration raises after the last piece, if any.
\<close>

record response =
  status_code :: int
  iter_content :: "nat \<Rightarrow> bytes list"
  stream_error :: "exn option"

text \<open>
  The two prompts of \<^verbatim>\<open>__aigc_processor\<close>, by what is interpolated into them: the
  formatted duration, and for the analysis the target language.
\<close>

datatype prompt = AnalysisPrompt ustr ustr | TranscriptPrompt ustr

record pdf_meta =
  meta_title :: ustr
  meta_subject :: ustr
  meta_author :: ustr
  meta_creator :: ustr

text \<open>
  The fields of \<open>env\<close>:
  \<^item> \<open>uni\<close>: the Unicode tables; \<open>tempdir\<close>: \<^verbatim>\<open>tempfile.gettempdir()\<close>;
    \<open>clock\<close>: \<^verbatim>\<open>int(time.time())\<close>; \<open>stamp\<close>: \<^verbatim>\<open>datetime.now().strftime('%Y%m%d_%H%M%S')\<close>;
    \<open>uuid4\<close>: \<^verbatim>\<open>str(uuid.uuid4())\<close>; \<open>api_key\<close> and \<open>aigc_model\<close>: the attributes
    of the instance;
  \<^item> \<open>decode\<close>: what \<^verbatim>\<open>AudioFileClip\<close> finds in a file of that name and content, its
    duration in seconds or an error; \<open>fadeout_error\<close>: the error of \<^verbatim>\<open>audio_fadeout\<close>,
    if any; \<open>encode\<close>: what \<^verbatim>\<open>write_audiofile\<close> does, which is to raise, to write
    these bytes, or to return with nothing written (\<open>None\<close>: the encoder failed and no
    exception came of it);
  \<^item> \<open>yt_title\<close>: \<^verbatim>\<open>YouTube(url).title\<close>; \<open>yt_download\<close>: for a URL, an output
    directory and a file name, the path that \<^verbatim>\<open>download\<close> returns and the bytes it wrote
    there;
  \<^item> \<open>open_error\<close>: the error of \<^verbatim>\<open>open(path, 'wb')\<close>, if any; \<open>http_get\<close>: the
    response of \<^verbatim>\<open>requests.get(url, stream=True)\<close>, or its error;
  \<^item> \<open>genai_configure\<close>, \<open>genai_upload\<close> (of a path and the content of the file, if
    it exists; the answer is the uploaded file as it is printed), \<open>genai_generate\<close> (of
    the model, the prompt and the uploaded file; the answer is \<^verbatim>\<open>response.text\<close>);
  \<^item> \<open>pdf_add_section\<close>: the error of building and adding the section, if any;
    \<open>pdf_save\<close>: the bytes of the PDF for the Markdown and the metadata, or an error.
\<close>

record env =
  uni :: unicode
  tempdir :: path
  clock :: nat
  stamp :: ustr
  uuid4 :: ustr
  api_key :: "ustr option"
  aigc_model :: ustr
  decode :: "path \<Rightarrow> bytes \<Rightarrow> exn + rat"
  fadeout_error :: "clip \<Rightarrow> exn option"
  encode :: "clip \<Rightarrow> exn + bytes option"
  yt_title :: "ustr \<Rightarrow> exn + ustr"
  yt_download :: "ustr \<Rightarrow> path \<Rightarrow> ustr \<Rightarrow> exn + path \<times> bytes"
  open_error :: "path \<Rightarrow> exn option"
  http_get :: "ustr \<Rightarrow> exn + response"
  genai_configure :: "ustr \<Rightarrow> exn option"
  genai_upload :: "path \<Rightarrow> bytes option \<Rightarrow> exn + ustr"
  genai_generate :: "ustr \<Rightarrow> prompt \<Rightarrow> ustr \<Rightarrow> exn + ustr"
  pdf_add_section :: "ustr \<Rightarrow> exn option"
  pdf_save :: "ustr \<Rightarrow> pdf_meta \<Rightarrow> exn + bytes"

text \<open>
  The fields of \<open>world\<close>: \<open>fs\<close>, the regular files by path, with their contents;
  \<open>logged\<close>, the lines of the log; \<open>readers\<close>, the decoder handles that are open;
  \<open>writes\<close>, every call of \<^verbatim>\<open>f.write\<close> so far, as the path of the file and the data
  written, which stays on record when the file is deleted.
\<close>

record world =
  fs :: "path \<Rightarrow> bytes option"
  logged :: "(level \<times> ustr) list"
  readers :: "nat list"
  writes :: "(path \<times> bytes) list"

type_synonym 'a py = "world \<Rightarrow> 'a res \<times> world"

definition py_return :: "'a \<Rightarrow> 'a py" where
  "py_return x w = (Val x, w)"

definition py_raise :: "exn \<Rightarrow> 'a py" where
  "py_raise e w = (Raise e, w)"

definition py_bind :: "'a py \<Rightarrow> ('a \<Rightarrow> 'b py) \<Rightarrow> 'b py" where
  "py_bind m f w = (case m w of (Val x, w') \<Rightarrow> f x w' | (Raise e, w') \<Rightarrow> (Raise e, w'))"

definition py_seq :: "'a py \<Rightarrow> 'b py \<Rightarrow> 'b py" where
  "py_seq m n = py_bind m (\<lambda>_. n)"

text \<open>\<^verbatim>\<open>try: m  except Exception as e: h(e)\<close>\<close>

definition try_except :: "'a py \<Rightarrow> (exn \<Rightarrow> 'a py) \<Rightarrow> 'a py" where
  "try_except m h w = (case m w of (Val x, w') \<Rightarrow> (Val x, w') | (Raise e, w') \<Rightarrow> h e w')"

text \<open>An answer of a collaborator that changes nothing in the world.\<close>

definition answer :: "exn + 'a \<Rightarrow> 'a py" where
  "answer r w = (case r of Inl e \<Rightarrow> (Raise e, w) | Inr x \<Rightarrow> (Val x, w))"

definition check :: "exn option \<Rightarrow> unit py" where
  "check r w = (case r of Some e \<Rightarrow> (Raise e, w) | None \<Rightarrow> (Val (), w))"

subsection \<open>Logging\<close>

definition tagged :: "ustr \<Rightarrow> ustr \<Rightarrow> ustr" where
  "tagged task_id msg = ustr ''['' @ task_id @ ustr ''] '' @ msg"

definition log_info :: "ustr \<Rightarrow> unit py" where
  "log_info msg w = (Val (), w\<lparr>logged := logged w @ [(INFO, msg)]\<rparr>)"

definition log_error :: "ustr \<Rightarrow> unit py" where
  "log_error msg w = (Val (), w\<lparr>logged := logged w @ [(ERROR, msg)]\<rparr>)"

subsection \<open>Files\<close>

definition isfile :: "world \<Rightarrow> path \<Rightarrow> bool" where
  "isfile w p \<longleftrightarrow> fs w p \<noteq> None"

text \<open>\<^verbatim>\<open>if os.path.exists(p): os.unlink(p)\<close>\<close>

definition unlink_if_exists :: "path \<Rightarrow> unit py" where
  "unlink_if_exists p w =
     (if fs w p \<noteq> None then (Val (), w\<lparr>fs := (fs w)(p := None)\<rparr>) else (Val (), w))"

definition write_file :: "path \<Rightarrow> bytes \<Rightarrow> unit py" where
  "write_file p b w = (Val (), w\<lparr>fs := (fs w)(p \<mapsto> b)\<rparr>)"

text \<open>\<^verbatim>\<open>f.write(chunk)\<close> on the file opened at \<open>p\<close>\<close>

definition f_write :: "path \<Rightarrow> bytes \<Rightarrow> world \<Rightarrow> world" where
  "f_write p chunk w =
     w\<lparr>fs := (fs w)(p \<mapsto> (case fs w p of None \<Rightarrow> chunk | Some old \<Rightarrow> old @ chunk)),
       writes := writes w @ [(p, chunk)]\<rparr>"

subsection \<open>Audio clips\<close>

text \<open>
  A decoder handle is a number that no open handle has. \<^verbatim>\<open>AudioFileClip(p)\<close> raises
  when the file is missing or cannot be decoded, and opens no handle then.
  \<^verbatim>\<open>audio_fadeout\<close> returns a copy of the clip that reads through the same handle, and
  \<^verbatim>\<open>close\<close> releases the handle of the clip it is called on.
  \<^verbatim>\<open>write_audiofile\<close> raises, or writes the file, or returns with no file written.
\<close>

definition file_not_found :: "path \<Rightarrow> exn" where
  "file_not_found p =
     Exception (ustr ''MoviePy error: the file '' @ p @ ustr '' could not be found!'' @ [10] @
       ustr ''Please check that you entered the correct path.'')"

definition fresh :: "nat list \<Rightarrow> nat" where
  "fresh hs = Suc (fold max hs 0)"

definition AudioFileClip :: "env \<Rightarrow> path \<Rightarrow> clip py" where
  "AudioFileClip env p w =
     (case fs w p of
        None \<Rightarrow> (Raise (file_not_found p), w)
      | Some b \<Rightarrow>
          (case decode env p b of
             Inl e \<Rightarrow> (Raise e, w)
           | Inr d \<Rightarrow>
               (Val \<lparr>reader = fresh (readers w), audio_data = b, duration = d, faded = False\<rparr>,
                w\<lparr>readers := fresh (readers w) # readers w\<rparr>)))"

definition audio_fadeout :: "env \<Rightarrow> clip \<Rightarrow> clip py" where
  "audio_fadeout env a w =
     (case fadeout_error env a of Some e \<Rightarrow> (Raise e, w) | None \<Rightarrow> (Val (a\<lparr>faded := True\<rparr>), w))"

definition write_audiofile :: "env \<Rightarrow> clip \<Rightarrow> path \<Rightarrow> unit py" where
  "write_audiofile env a p w =
     (case encode env a of
        Inl e \<Rightarrow> (Raise e, w)
      | Inr None \<Rightarrow> (Val (), w)
      | Inr (Some b) \<Rightarrow> write_file p b w)"

definition close_clip :: "clip \<Rightarrow> world \<Rightarrow> world" where
  "close_clip a w = w\<lparr>readers := removeAll (reader a) (readers w)\<rparr>"

section \<open>The audio normaliser: \<^verbatim>\<open>__compress_audio\<close>\<close>

text \<open>
  The inner \<^verbatim>\<open>try\<close> block, together with the value that the variable \<^verbatim>\<open>audio\<close>
  holds when the block is left: \<open>None\<close> until \<^verbatim>\<open>AudioFileClip\<close> has returned, then the
  opened clip, then its faded copy.
\<close>

definition compress_try :: "env \<Rightarrow> path \<Rightarrow> path \<Rightarrow> world \<Rightarrow> (path res \<times> clip option) \<times> world" where
  "compress_try env filepath temp_path w =
     (case AudioFileClip env filepath w of
        (Raise e, w1) \<Rightarrow> ((Raise e, None), w1)
      | (Val a, w1) \<Rightarrow>
          (case audio_fadeout env a w1 of
             (Raise e, w2) \<Rightarrow> ((Raise e, Some a), w2)
           | (Val a', w2) \<Rightarrow>
               (case write_audiofile env a' temp_path w2 of
                  (Raise e, w3) \<Rightarrow> ((Raise e, Some a'), w3)
                | (Val _, w3) \<Rightarrow> ((Val temp_path, Some a'), w3))))"

text \<open>\<^verbatim>\<open>finally: if audio: audio.close()\<close>\<close>

definition compress_finally :: "clip option \<Rightarrow> world \<Rightarrow> world" where
  "compress_finally audio w = (case audio of None \<Rightarrow> w | Some a \<Rightarrow> close_clip a w)"

definition audio_filename :: "env \<Rightarrow> path \<Rightarrow> ustr" where
  "audio_filename env filepath = sanitize (uni env) (splitext_root (basename filepath))"

definition compress_audio :: "env \<Rightarrow> path \<Rightarrow> ustr \<Rightarrow> path option py" where
  "compress_audio env filepath task_id =
     py_seq (log_info (tagged task_id (ustr ''Compressing audio: '' @ filepath)))
       (try_except
          (let filename = audio_filename env filepath;
               temp_path = path_join (tempdir env) (filename @ ustr ''.mp3'')
           in (\<lambda>w. case compress_try env filepath temp_path w of
                      ((Raise e, audio), w') \<Rightarrow> (Raise e, compress_finally audio w')
                    | ((Val p, audio), w') \<Rightarrow> (Val (Some p), compress_finally audio w')))
          (\<lambda>e. py_seq (log_error (tagged task_id (ustr ''Audio compression failed: '' @ str_exn e)))
                  (py_return None)))"

section \<open>Retrieval: \<^verbatim>\<open>__process_youtube\<close> and \<^verbatim>\<open>__process_web_url\<close>\<close>

definition youtube_temp_filename :: "ustr \<Rightarrow> ustr \<Rightarrow> ustr" where
  "youtube_temp_filename task_id video_title = task_id @ ustr ''_'' @ video_title @ ustr ''.m4a''"

text \<open>The download of the audio-only stream: the file it wrote, with its contents.\<close>

definition download_stream :: "env \<Rightarrow> ustr \<Rightarrow> path \<Rightarrow> ustr \<Rightarrow> path py" where
  "download_stream env url output_path filename w =
     (case yt_download env url output_path filename of
        Inl e \<Rightarrow> (Raise e, w)
      | Inr (p, b) \<Rightarrow> (Val p, w\<lparr>fs := (fs w)(p \<mapsto> b)\<rparr>))"

definition process_youtube :: "env \<Rightarrow> ustr \<Rightarrow> ustr \<Rightarrow> path option py" where
  "process_youtube env url task_id =
     py_seq (log_info (tagged task_id (ustr ''Processing YouTube URL: '' @ url)))
       (try_except
          (py_bind (answer (yt_title env url)) (\<lambda>video_title.
           let temp_filename = youtube_temp_filename task_id video_title in
           py_bind (download_stream env url (tempdir env) temp_filename) (\<lambda>downloaded_file.
           py_bind (compress_audio env downloaded_file task_id) (\<lambda>compressed_audio.
           py_seq (unlink_if_exists downloaded_file)
             (py_return compressed_audio)))))
          (\<lambda>e. py_seq (log_error (tagged task_id (ustr ''YouTube processing failed: '' @ str_exn e)))
                  (py_return None)))"

text \<open>\<^verbatim>\<open>for chunk in ...: f.write(chunk)\<close>\<close>

fun write_chunks :: "path \<Rightarrow> bytes list \<Rightarrow> world \<Rightarrow> world" where
  "write_chunks p [] w = w"
| "write_chunks p (c # cs) w = write_chunks p cs (f_write p c w)"

text \<open>
  The \<^verbatim>\<open>with open(temp_path, 'wb') as f:\<close> block. Opening creates the file, or empties it.
\<close>

definition download_to :: "env \<Rightarrow> ustr \<Rightarrow> path \<Rightarrow> unit py" where
  "download_to env url temp_path =
     py_seq (check (open_error env temp_path))
    (py_seq (write_file temp_path [])
    (py_bind (answer (http_get env url)) (\<lambda>response.
       if status_code response = 200 then
         (\<lambda>w. let w' = write_chunks temp_path (iter_content response 8192) w in
               case stream_error response of
                 Some e \<Rightarrow> (Raise e, w')
               | None \<Rightarrow> (Val (), w'))
       else py_return ())))"

definition web_filename :: "env \<Rightarrow> ustr \<Rightarrow> ustr" where
  "web_filename env url =
     (let b = basename (takeWhile (\<lambda>c. c \<noteq> 63) url)
      in if b = [] then ustr ''download_'' @ dec (clock env) else b)"

definition web_temp_path :: "env \<Rightarrow> ustr \<Rightarrow> path" where
  "web_temp_path env url = path_join (tempdir env) (web_filename env url @ ustr ''.mp4'')"

definition process_web_url :: "env \<Rightarrow> ustr \<Rightarrow> ustr \<Rightarrow> path option py" where
  "process_web_url env url task_id =
     py_seq (log_info (tagged task_id (ustr ''Processing web URL: '' @ url)))
       (try_except
          (let temp_path = web_temp_path env url in
           py_seq (download_to env url temp_path)
          (py_bind (compress_audio env temp_path task_id) (\<lambda>compressed_audio.
           py_seq (unlink_if_exists temp_path)
             (py_return compressed_audio))))
          (\<lambda>e. py_seq (log_error (tagged task_id (ustr ''URL processing failed: '' @ str_exn e)))
                  (py_return None)))"

section \<open>Acquisition: \<^verbatim>\<open>__media_processor\<close>\<close>

definition media_processor :: "env \<Rightarrow> ustr \<Rightarrow> ustr \<Rightarrow> path option py" where
  "media_processor env input_path task_id =
     try_except
       (\<lambda>w. if isfile w input_path then compress_audio env input_path task_id w
             else if is_youtube_url input_path then process_youtube env input_path task_id w
             else if is_url (uni env) input_path then process_web_url env input_path task_id w
             else py_seq (log_error (tagged task_id (ustr ''Invalid input: not a file path or URL'')))
                    (py_return None) w)
       (\<lambda>e. py_seq (log_error (tagged task_id (ustr ''Media processing failed: '' @ str_exn e)))
               (py_return None))"

text \<open>The branch that \<open>media_processor\<close> takes, under the names the specification uses.\<close>

datatype input_kind = LocalFile | StreamingUrl | GenericUrl | Invalid

definition classify :: "env \<Rightarrow> world \<Rightarrow> ustr \<Rightarrow> input_kind" where
  "classify env w input_path =
     (if isfile w input_path then LocalFile
      else if is_youtube_url input_path then StreamingUrl
      else if is_url (uni env) input_path then GenericUrl
      else Invalid)"

section \<open>The AI stage: \<^verbatim>\<open>__aigc_processor\<close>\<close>

text \<open>What follows the choice of the prompt.\<close>

definition aigc_generate :: "env \<Rightarrow> prompt \<Rightarrow> path \<Rightarrow> ustr \<Rightarrow> ustr \<Rightarrow> ustr option py" where
  "aigc_generate env prompt input_path processing_mode task_id =
     py_bind (\<lambda>w. answer (genai_upload env input_path (fs w input_path)) w) (\<lambda>audio_file.
     py_seq (log_info (tagged task_id (ustr ''Uploading audio: '' @ audio_file)))
    (py_seq (log_info (tagged task_id (ustr ''Processing AI '' @ processing_mode @ ustr ''...'')))
    (py_bind (answer (genai_generate env (aigc_model env) prompt audio_file)) (\<lambda>response_text.
     py_return (Some (clean_markdown response_text))))))"

definition aigc_processor :: "env \<Rightarrow> path \<Rightarrow> ustr \<Rightarrow> ustr \<Rightarrow> ustr \<Rightarrow> ustr option py" where
  "aigc_processor env input_path target_language processing_mode task_id =
     try_except
       (py_seq (case api_key env of
                  None \<Rightarrow> py_return ()
                | Some k \<Rightarrow> if k = [] then py_return () else check (genai_configure env k))
       (py_bind (AudioFileClip env input_path) (\<lambda>audio.
        let formatted_duration = format_duration (duration audio) in
        py_seq (\<lambda>w. (Val (), close_clip audio w))
          (if lower (uni env) processing_mode = ustr ''analysis'' then
             aigc_generate env (AnalysisPrompt formatted_duration target_language)
               input_path processing_mode task_id
           else if lower (uni env) processing_mode = ustr ''transcript'' then
             aigc_generate env (TranscriptPrompt formatted_duration)
               input_path processing_mode task_id
           else
             py_seq (log_error (tagged task_id (ustr ''Invalid processing mode: '' @ processing_mode)))
               (py_return None)))))
       (\<lambda>e. py_seq (log_error (tagged task_id
                 (ustr ''AI '' @ processing_mode @ ustr '' processing failed: '' @ str_exn e)))
               (py_return None))"

section \<open>The PDF stage: \<^verbatim>\<open>__markdown_to_pdf\<close>\<close>

text \<open>
  The local variable \<^verbatim>\<open>title\<close> is assigned only on some paths; it is an option, and
  reading it while it is unassigned raises \<^verbatim>\<open>UnboundLocalError\<close>.
\<close>

definition read_local :: "ustr \<Rightarrow> 'a option \<Rightarrow> 'a py" where
  "read_local name v = (case v of None \<Rightarrow> py_raise (UnboundLocalError name) | Some x \<Rightarrow> py_return x)"

definition pdf_filename :: "env \<Rightarrow> path \<Rightarrow> ustr \<Rightarrow> ustr \<Rightarrow> ustr" where
  "pdf_filename env original_path target_language processing_mode =
     sanitize (uni env) (splitext_root (basename original_path)) @ ustr ''_'' @
     lower (uni env) processing_mode @ ustr ''_'' @
     replace_space (lower (uni env) target_language)"

definition markdown_to_pdf :: "env \<Rightarrow> ustr \<Rightarrow> path \<Rightarrow> ustr \<Rightarrow> ustr \<Rightarrow> ustr \<Rightarrow> path option py" where
  "markdown_to_pdf env markdown_text original_path target_language processing_mode task_id =
     try_except
       (let clean_filename = pdf_filename env original_path target_language processing_mode;
            pdf_path = path_join (tempdir env) (clean_filename @ ustr ''.pdf'')
        in
        py_seq (log_info (tagged task_id (ustr ''Generating PDF: '' @ pdf_path)))
       (py_bind
          (if \<not> startswith markdown_text (ustr ''# '') then
             (let title =
                (if lower (uni env) processing_mode = ustr ''analysis'' then
                   Some (ustr ''CitraIlmu Analysis ('' @ target_language @ ustr '')'')
                 else if lower (uni env) processing_mode = ustr ''transcript'' then
                   Some (ustr ''CitraIlmu Transcript ('' @ target_language @ ustr '')'')
                 else None)
              in py_bind (read_local (ustr ''title'') title) (\<lambda>t.
                 py_return (title, ustr ''# '' @ t @ [10, 10] @ markdown_text)))
           else py_return (None, markdown_text))
          (\<lambda>(title, markdown_text').
             py_seq (check (pdf_add_section env markdown_text'))
            (py_bind (read_local (ustr ''title'') title) (\<lambda>t.
             py_bind (answer (pdf_save env markdown_text'
                        \<lparr>meta_title = t, meta_subject = t,
                         meta_author = ustr ''Ikmal Said'', meta_creator = ustr ''CitraIlmu''\<rparr>))
               (\<lambda>b.
             py_seq (write_file pdf_path b)
               (py_return (Some pdf_path))))))))
       (\<lambda>e. py_seq (log_error (tagged task_id (ustr ''PDF generation failed: '' @ str_exn e)))
               (py_return None))"

section \<open>The pipeline: \<^verbatim>\<open>process_media\<close>\<close>

definition get_taskid :: "env \<Rightarrow> ustr" where
  "get_taskid env = stamp env @ ustr ''_'' @ take 8 (uuid4 env)"

text \<open>
  \<^verbatim>\<open>process_media\<close> over any three stages, so that its own \<^verbatim>\<open>try\<close> and
  \<^verbatim>\<open>except\<close> can be studied for stages that raise. \<^verbatim>\<open>if not x\<close> holds for
  \<^verbatim>\<open>None\<close> and for the empty string.
\<close>

definition process_media_with ::
  "(ustr \<Rightarrow> ustr \<Rightarrow> path option py) \<Rightarrow>
   (path \<Rightarrow> ustr \<Rightarrow> ustr \<Rightarrow> ustr \<Rightarrow> ustr option py) \<Rightarrow>
   (ustr \<Rightarrow> path \<Rightarrow> ustr \<Rightarrow> ustr \<Rightarrow> ustr \<Rightarrow> path option py) \<Rightarrow>
   env \<Rightarrow> ustr \<Rightarrow> ustr \<Rightarrow> ustr \<Rightarrow> (path option \<times> path option) py" where
  "process_media_with acquire ai render env input_path target_language processing_mode =
     (let task_id = get_taskid env in
      py_seq (log_info (tagged task_id
                (ustr ''Task started: '' @ processing_mode @ ustr '' in '' @ target_language)))
        (try_except
           (py_bind (acquire input_path task_id) (\<lambda>compressed_file.
              case compressed_file of
                None \<Rightarrow> py_return (None, None)
              | Some c \<Rightarrow>
                  if c = [] then py_return (None, None)
                  else
                    py_bind (ai c target_language processing_mode task_id) (\<lambda>markdown_text.
                      case markdown_text of
                        None \<Rightarrow> py_return (compressed_file, None)
                      | Some t \<Rightarrow>
                          if t = [] then py_return (compressed_file, None)
                          else
                            py_bind (render t c target_language processing_mode task_id) (\<lambda>pdf_file.
                              case pdf_file of
                                None \<Rightarrow> py_return (compressed_file, None)
                              | Some f \<Rightarrow>
                                  if f = [] then py_return (compressed_file, None)
                                  else
                                    py_seq (log_info (tagged task_id (ustr ''Task completed successfully'')))
                                      (py_return (compressed_file, pdf_file))))))
           (\<lambda>e. py_seq (log_error (tagged task_id (ustr ''Task failed: '' @ str_exn e)))
                   (py_return (None, None)))))"

definition process_media :: "env \<Rightarrow> ustr \<Rightarrow> ustr \<Rightarrow> ustr \<Rightarrow> (path option \<times> path option) py" where
  "process_media env =
     process_media_with (media_processor env) (aigc_processor env) (markdown_to_pdf env) env"

section \<open>Notions used to state the properties\<close>

text \<open>
  What a stage did: it was not reached, it raised, it returned nothing (\<^verbatim>\<open>None\<close> or an
  empty string, which \<^verbatim>\<open>if not x\<close> treats alike), or it returned something.
  \<open>stage_outcomes\<close> runs the three stages in the order and in the worlds in which
  \<^verbatim>\<open>process_media\<close> runs them, and reports what each did.
\<close>

datatype 'a stage = NotRun | Raised exn | Absent | Returned 'a

definition stage_of :: "ustr option res \<Rightarrow> ustr stage" where
  "stage_of r =
     (case r of
        Raise e \<Rightarrow> Raised e
      | Val None \<Rightarrow> Absent
      | Val (Some x) \<Rightarrow> if x = [] then Absent else Returned x)"

definition stage_outcomes ::
  "(ustr \<Rightarrow> ustr \<Rightarrow> path option py) \<Rightarrow>
   (path \<Rightarrow> ustr \<Rightarrow> ustr \<Rightarrow> ustr \<Rightarrow> ustr option py) \<Rightarrow>
   (ustr \<Rightarrow> path \<Rightarrow> ustr \<Rightarrow> ustr \<Rightarrow> ustr \<Rightarrow> path option py) \<Rightarrow>
   env \<Rightarrow> ustr \<Rightarrow> ustr \<Rightarrow> ustr \<Rightarrow> world \<Rightarrow> path stage \<times> ustr stage \<times> path stage" where
  "stage_outcomes acquire ai render env input_path target_language processing_mode w =
     (let task_id = get_taskid env;
          w0 = snd (log_info (tagged task_id
                 (ustr ''Task started: '' @ processing_mode @ ustr '' in '' @ target_language)) w);
          (r1, w1) = acquire input_path task_id w0
      in case stage_of r1 of
           Returned c \<Rightarrow>
             (let (r2, w2) = ai c target_language processing_mode task_id w1
              in case stage_of r2 of
                   Returned t \<Rightarrow>
                     (Returned c, Returned t,
                      stage_of (fst (render t c target_language processing_mode task_id w2)))
                 | NotRun \<Rightarrow> (Returned c, NotRun, NotRun)
                 | Raised e \<Rightarrow> (Returned c, Raised e, NotRun)
                 | Absent \<Rightarrow> (Returned c, Absent, NotRun))
         | NotRun \<Rightarrow> (NotRun, NotRun, NotRun)
         | Raised e \<Rightarrow> (Raised e, NotRun, NotRun)
         | Absent \<Rightarrow> (Absent, NotRun, NotRun))"

fun is_raised :: "'a stage \<Rightarrow> bool" where
  "is_raised (Raised e) = True"
| "is_raised s = False"

text \<open>
  The table of the specification: nothing when acquisition returned no file or an
  exception reached the pipeline, the compressed file alone when the AI stage or the PDF
  stage returned nothing, both files when all three stages returned.
\<close>

fun expected_result :: "path stage \<times> ustr stage \<times> path stage \<Rightarrow> path option \<times> path option" where
  "expected_result (Returned c, Returned t, Returned f) = (Some c, Some f)"
| "expected_result (Returned c, Returned t, Absent) = (Some c, None)"
| "expected_result (Returned c, Absent, s) = (Some c, None)"
| "expected_result s = (None, None)"

text \<open>
  A processing mode that is neither \<^verbatim>\<open>analysis\<close> nor \<^verbatim>\<open>transcript\<close> once in lower
  case; and an instance whose API key, if it has one, is configured without an error.
\<close>

definition invalid_mode :: "env \<Rightarrow> ustr \<Rightarrow> bool" where
  "invalid_mode env processing_mode \<longleftrightarrow>
     lower (uni env) processing_mode \<noteq> ustr ''analysis'' \<and>
     lower (uni env) processing_mode \<noteq> ustr ''transcript''"

definition configured :: "env \<Rightarrow> bool" where
  "configured env \<longleftrightarrow>
     (case api_key env of None \<Rightarrow> True | Some k \<Rightarrow> k = [] \<or> genai_configure env k = None)"

text \<open>
  The clip that \<^verbatim>\<open>AudioFileClip\<close> returns in a world, for a file of content \<open>b\<close>
  and duration \<open>d\<close>. The world after a compression in which the encoder returned:
  one line more in the log, and the compressed file if the encoder wrote it. The world
  after an AI stage that raised: one error line more in the log. The world
  after a failed compression, and after a PDF stage that read the unassigned
  \<^verbatim>\<open>title\<close>: two lines more in the log, nothing else changed.
\<close>

definition opened_clip :: "world \<Rightarrow> bytes \<Rightarrow> rat \<Rightarrow> clip" where
  "opened_clip w b d = \<lparr>reader = fresh (readers w), audio_data = b, duration = d, faded = False\<rparr>"

definition compression_returned :: "env \<Rightarrow> path \<Rightarrow> ustr \<Rightarrow> bytes option \<Rightarrow> world \<Rightarrow> world" where
  "compression_returned env filepath task_id written w =
     w\<lparr>logged := logged w @ [(INFO, tagged task_id (ustr ''Compressing audio: '' @ filepath))],
       fs := (case written of
                None \<Rightarrow> fs w
              | Some b \<Rightarrow> (fs w)(path_join (tempdir env) (audio_filename env filepath @ ustr ''.mp3'') \<mapsto> b))\<rparr>"

definition ai_failed :: "ustr \<Rightarrow> ustr \<Rightarrow> exn \<Rightarrow> world \<Rightarrow> world" where
  "ai_failed processing_mode task_id e w =
     w\<lparr>logged := logged w @
        [(ERROR, tagged task_id
            (ustr ''AI '' @ processing_mode @ ustr '' processing failed: '' @ str_exn e))]\<rparr>"

definition compression_failed :: "path \<Rightarrow> ustr \<Rightarrow> exn \<Rightarrow> world \<Rightarrow> world" where
  "compression_failed filepath task_id e w =
     w\<lparr>logged := logged w @
        [(INFO, tagged task_id (ustr ''Compressing audio: '' @ filepath)),
         (ERROR, tagged task_id (ustr ''Audio compression failed: '' @ str_exn e))]\<rparr>"

definition unbound_title_logged :: "env \<Rightarrow> path \<Rightarrow> ustr \<Rightarrow> ustr \<Rightarrow> ustr \<Rightarrow> world \<Rightarrow> world" where
  "unbound_title_logged env original_path target_language processing_mode task_id w =
     w\<lparr>logged := logged w @
        [(INFO, tagged task_id (ustr ''Generating PDF: '' @
            path_join (tempdir env)
              (pdf_filename env original_path target_language processing_mode @ ustr ''.pdf''))),
         (ERROR, tagged task_id (ustr ''PDF generation failed: '' @
            str_exn (UnboundLocalError (ustr ''title''))))]\<rparr>"

text \<open>\<open>has_fence s\<close>: three backticks stand in a row somewhere in \<open>s\<close>.\<close>

fun has_fence :: "ustr \<Rightarrow> bool" where
  "has_fence [] = False"
| "has_fence (c # cs) = (startswith (c # cs) fence \<or> has_fence cs)"

section \<open>Example surroundings\<close>

text \<open>
  Concrete runs to evaluate the model on. In the first a local file
  \<^verbatim>\<open>/data/talk.wav\<close> exists and every collaborator succeeds; the task id of these runs
  is \<open>demo_task_id\<close>.
\<close>

definition demo_unicode :: unicode where
  "demo_unicode = \<lparr>wide_alnum = (\<lambda>c. False), wide_decimal = (\<lambda>c. False), wide_lower = (\<lambda>c. [c])\<rparr>"

definition demo_response :: response where
  "demo_response = \<lparr>status_code = 200, iter_content = (\<lambda>n. [''mp'', ''4'']), stream_error = None\<rparr>"

definition demo_env :: env where
  "demo_env =
     \<lparr>uni = demo_unicode, tempdir = ustr ''/tmp'', clock = 1700000000,
      stamp = ustr ''20250101_120000'', uuid4 = ustr ''0a1b2c3d-0000-4000-8000-000000000000'',
      api_key = None, aigc_model = ustr ''gemini-1.5-flash-8b'',
      decode = (\<lambda>p b. Inr 90), fadeout_error = (\<lambda>a. None), encode = (\<lambda>a. Inr (Some ''mp3'')),
      yt_title = (\<lambda>url. Inr (ustr ''a talk'')),
      yt_download = (\<lambda>url out name. Inr (path_join out name, ''m4a'')),
      open_error = (\<lambda>p. None),
      http_get = (\<lambda>url. Inr demo_response),
      genai_configure = (\<lambda>k. None), genai_upload = (\<lambda>p b. Inr (ustr ''files/1'')),
      genai_generate = (\<lambda>m p f. Inr (ustr ''Summary'')),
      pdf_add_section = (\<lambda>md. None), pdf_save = (\<lambda>md meta. Inr ''pdf'')\<rparr>"

definition demo_world :: world where
  "demo_world =
     \<lparr>fs = [ustr ''/data/talk.wav'' \<mapsto> ''wav''], logged = [], readers = [], writes = []\<rparr>"

definition demo_task_id :: ustr where
  "demo_task_id = ustr ''20250101_120000_0a1b2c3d''"

text \<open>
  Variations: the decoder rejects every file; the fade-out fails; the encoder raises; the
  encoder returns and has written nothing; the decoder rejects the compressed file only;
  the API key is refused; the AI answers with Markdown that begins with a heading; the
  server answers 404; a file whose path looks like a video URL; a local file with spaces
  and brackets in its name; the world once the compressed file is written.
\<close>

definition bad_audio :: exn where
  "bad_audio = Exception (ustr ''failed to read the duration'')"

definition env_decode_fails :: env where
  "env_decode_fails = demo_env\<lparr>decode := (\<lambda>p b. Inl bad_audio)\<rparr>"

definition env_encode_fails :: env where
  "env_encode_fails = demo_env\<lparr>encode := (\<lambda>a. Inl bad_audio)\<rparr>"

definition env_fadeout_fails :: env where
  "env_fadeout_fails = demo_env\<lparr>fadeout_error := (\<lambda>a. Some bad_audio)\<rparr>"

definition env_encoder_silent :: env where
  "env_encoder_silent = demo_env\<lparr>encode := (\<lambda>a. Inr None)\<rparr>"

definition bad_key :: exn where
  "bad_key = Exception (ustr ''API key not valid'')"

definition env_configure_fails :: env where
  "env_configure_fails =
     demo_env\<lparr>api_key := Some (ustr ''key''), genai_configure := (\<lambda>k. Some bad_key)\<rparr>"

definition world_spaced :: world where
  "world_spaced = demo_world\<lparr>fs := (fs demo_world)(ustr ''/data/my talk (1).wav'' \<mapsto> ''wav'')\<rparr>"

definition world_compressed :: world where
  "world_compressed = demo_world\<lparr>fs := (fs demo_world)(ustr ''/tmp/talk.mp3'' \<mapsto> ''mp3'')\<rparr>"

definition env_probe_fails :: env where
  "env_probe_fails = demo_env\<lparr>decode := (\<lambda>p b. if b = ''mp3'' then Inl bad_audio else Inr 90)\<rparr>"

definition env_heading :: env where
  "env_heading = demo_env\<lparr>genai_generate := (\<lambda>m p f. Inr (ustr ''# Talk''))\<rparr>"

definition not_found :: response where
  "not_found = \<lparr>status_code = 404, iter_content = (\<lambda>n. [''Not Found'']), stream_error = None\<rparr>"

definition env_not_found :: env where
  "env_not_found = demo_env\<lparr>http_get := (\<lambda>url. Inr not_found)\<rparr>"

definition world_with_dir :: world where
  "world_with_dir = demo_world\<lparr>fs := (fs demo_world)(ustr ''youtube.com/talk.wav'' \<mapsto> ''wav'')\<rparr>"

section \<open>Properties of sanitization\<close>

lemma is_word_underscore: "is_word U 95"
  by (simp add: is_word_def)

text \<open>
  C10. The substitution applied to base names before a temporary path is built is
  idempotent: for every string \<open>s\<close> (and whatever the Unicode tables above Latin-1 say),
  sanitizing a sanitized string changes nothing.
\<close>

theorem sanitize_idempotent: "sanitize U (sanitize U s) = sanitize U s"
  by (induction s) (simp_all add: sanitize_def is_word_underscore)

section \<open>Decoder handles\<close>

lemma fresh_bound: "h \<in> set hs \<Longrightarrow> h \<le> fold max hs (b::nat)"
proof (induction hs arbitrary: b)
  case Nil then show ?case by simp
next
  case (Cons a hs)
  have mono: "\<And>x. x \<le> fold max hs x"
  proof -
    fix x show "x \<le> fold max hs x"
    proof (induction hs arbitrary: x)
      case Nil show ?case by simp
    next
      case (Cons y ys)
      have "x \<le> max y x" by simp
      also have "\<dots> \<le> fold max ys (max y x)" by (rule Cons.IH)
      finally show ?case by simp
    qed
  qed
  show ?case
  proof (cases "h = a")
    case True
    have "a \<le> max a b" by simp
    also have "\<dots> \<le> fold max hs (max a b)" by (rule mono)
    finally show ?thesis using True by simp
  next
    case False
    with Cons.prems have "h \<in> set hs" by simp
    then show ?thesis using Cons.IH by simp
  qed
qed

lemma fresh_not_open: "fresh hs \<notin> set hs"
proof
  assume "fresh hs \<in> set hs"
  then have "fresh hs \<le> fold max hs 0" by (rule fresh_bound)
  then show False by (simp add: fresh_def)
qed

lemma open_close: "removeAll (fresh hs) (fresh hs # hs) = hs"
  using fresh_not_open [of hs] by simp

lemma close_unopened: "removeAll (fresh hs) hs = hs"
  using fresh_not_open [of hs] by simp

lemma compress_try_cases:
  "compress_try env fp tp w = ((r, audio), w') \<Longrightarrow>
     (audio = None \<and> readers w' = readers w) \<or>
     (\<exists>a. audio = Some a \<and> reader a = fresh (readers w) \<and> readers w' = fresh (readers w) # readers w)"
  by (auto simp: compress_try_def AudioFileClip_def audio_fadeout_def write_audiofile_def write_file_def
      split: option.splits sum.splits prod.splits res.splits)

lemma compress_try_readers:
  "compress_try env fp tp w = ((r, audio), w') \<Longrightarrow> readers (compress_finally audio w') = readers w"
  using compress_try_cases [of env fp tp w r audio w']
  by (auto simp: compress_finally_def close_clip_def close_unopened)

section \<open>Evaluating the model\<close>

lemmas string_defs = ustr_def startswith_def fence_def
lemmas path_defs = path_join_def basename_def splitext_root_def rfind_def
lemmas py_defs = py_return_def py_raise_def py_bind_def py_seq_def try_except_def answer_def check_def
  log_info_def log_error_def tagged_def
lemmas clip_defs = AudioFileClip_def audio_fadeout_def write_audiofile_def write_file_def close_clip_def
  fresh_def compress_try_def compress_finally_def

lemmas stage_defs = compress_audio_def process_youtube_def process_web_url_def media_processor_def
  aigc_processor_def aigc_generate_def markdown_to_pdf_def process_media_def process_media_with_def
  get_taskid_def audio_filename_def pdf_filename_def youtube_temp_filename_def download_stream_def
  download_to_def web_filename_def web_temp_path_def unlink_if_exists_def isfile_def read_local_def
lemmas char_defs = sanitize_def is_word_def isalnum_def latin1_alnum_def lower_def lower_char_def
  replace_space_def isspace_def strip_def ascii_letter_def
lemmas demo_defs = demo_env_def demo_world_def demo_unicode_def

lemma demo_env_sel:
  "uni demo_env = demo_unicode" "tempdir demo_env = ustr ''/tmp''" "clock demo_env = 1700000000"
  "stamp demo_env = ustr ''20250101_120000''"
  "uuid4 demo_env = ustr ''0a1b2c3d-0000-4000-8000-000000000000''"
  "api_key demo_env = None" "aigc_model demo_env = ustr ''gemini-1.5-flash-8b''"
  "decode demo_env = (\<lambda>p b. Inr 90)" "fadeout_error demo_env = (\<lambda>a. None)"
  "encode demo_env = (\<lambda>a. Inr (Some ''mp3''))" "yt_title demo_env = (\<lambda>url. Inr (ustr ''a talk''))"
  "yt_download demo_env = (\<lambda>url out name. Inr (path_join out name, ''m4a''))"
  "open_error demo_env = (\<lambda>p. None)"
  "http_get demo_env = (\<lambda>url. Inr demo_response)"
  "genai_configure demo_env = (\<lambda>k. None)" "genai_upload demo_env = (\<lambda>p b. Inr (ustr ''files/1''))"
  "genai_generate demo_env = (\<lambda>m p f. Inr (ustr ''Summary''))"
  "pdf_add_section demo_env = (\<lambda>md. None)" "pdf_save demo_env = (\<lambda>md meta. Inr ''pdf'')"
  by (simp_all add: demo_env_def)

lemma demo_unicode_sel:
  "wide_alnum demo_unicode = (\<lambda>c. False)" "wide_decimal demo_unicode = (\<lambda>c. False)"
  "wide_lower demo_unicode = (\<lambda>c. [c])"
  by (simp_all add: demo_unicode_def)

lemmas demo_sel = demo_env_sel demo_unicode_sel demo_world_def

lemmas eval_defs = stage_defs char_defs demo_sel string_defs path_defs py_defs clip_defs Let_def
  clean_markdown_def match_open_def match_fence_def is_youtube_url_def is_url_def
  youtube_regex_def url_regex_def opt_def chr_def plus_def

section \<open>Results of the audio normaliser\<close>

lemma compress_audio_unfold:
  "compress_audio env fp tid w =
     (case compress_try env fp (path_join (tempdir env) (audio_filename env fp @ ustr ''.mp3''))
             (w\<lparr>logged := logged w @ [(INFO, tagged tid (ustr ''Compressing audio: '' @ fp))]\<rparr>) of
        ((Raise e, audio), w1) \<Rightarrow>
          (Val None, (compress_finally audio w1)
             \<lparr>logged := logged (compress_finally audio w1) @
                [(ERROR, tagged tid (ustr ''Audio compression failed: '' @ str_exn e))]\<rparr>)
      | ((Val p, audio), w1) \<Rightarrow> (Val (Some p), compress_finally audio w1))"
  by (simp add: compress_audio_def py_seq_def py_bind_def log_info_def try_except_def
      log_error_def py_return_def Let_def split: prod.splits res.splits)

lemma compress_audio_readers:
  "readers (snd (compress_audio env fp tid w)) = readers w"
proof -
  let ?w0 = "w\<lparr>logged := logged w @ [(INFO, tagged tid (ustr ''Compressing audio: '' @ fp))]\<rparr>"
  let ?tp = "path_join (tempdir env) (audio_filename env fp @ ustr ''.mp3'')"
  obtain r audio w1 where t: "compress_try env fp ?tp ?w0 = ((r, audio), w1)"
    by (metis prod.exhaust)
  from compress_try_readers [OF t] have "readers (compress_finally audio w1) = readers w"
    by simp
  with t show ?thesis
    by (cases r) (simp_all add: compress_audio_unfold)
qed

lemma compress_audio_returns:
  "\<exists>r w'. compress_audio env fp tid w = (Val r, w')"
  by (simp add: compress_audio_unfold split: prod.splits res.splits)

lemma compress_audio_path:
  "compress_audio env fp tid w = (Val (Some p), w') \<Longrightarrow>
     p = path_join (tempdir env) (audio_filename env fp @ ustr ''.mp3'')"
  by (auto simp: compress_audio_unfold compress_try_def split: prod.splits res.splits)

lemma compress_audio_writes:
  "writes (snd (compress_audio env fp tid w)) = writes w"
  by (auto simp: compress_audio_unfold compress_try_def AudioFileClip_def audio_fadeout_def
      write_audiofile_def write_file_def compress_finally_def close_clip_def
      split: option.splits sum.splits prod.splits res.splits)

lemma compress_audio_missing_file:
  "fs w fp = None \<Longrightarrow>
     compress_audio env fp tid w = (Val None, compression_failed fp tid (file_not_found fp) w)"
  by (simp add: compress_audio_unfold compress_try_def AudioFileClip_def compress_finally_def
      compression_failed_def)

lemma compress_audio_decode_fails:
  "fs w fp = Some b \<Longrightarrow> decode env fp b = Inl e \<Longrightarrow>
     compress_audio env fp tid w = (Val None, compression_failed fp tid e w)"
  by (simp add: compress_audio_unfold compress_try_def AudioFileClip_def compress_finally_def
      compression_failed_def)

lemma compress_audio_fadeout_fails:
  "fs w fp = Some b \<Longrightarrow> decode env fp b = Inr d \<Longrightarrow>
   fadeout_error env (opened_clip w b d) = Some e \<Longrightarrow>
     compress_audio env fp tid w = (Val None, compression_failed fp tid e w)"
  by (simp add: compress_audio_unfold compress_try_def AudioFileClip_def audio_fadeout_def
      compress_finally_def close_clip_def close_unopened compression_failed_def opened_clip_def)

lemma compress_audio_encode_fails:
  "fs w fp = Some b \<Longrightarrow> decode env fp b = Inr d \<Longrightarrow>
   fadeout_error env (opened_clip w b d) = None \<Longrightarrow>
   encode env ((opened_clip w b d)\<lparr>faded := True\<rparr>) = Inl e \<Longrightarrow>
     compress_audio env fp tid w = (Val None, compression_failed fp tid e w)"
  by (simp add: compress_audio_unfold compress_try_def AudioFileClip_def audio_fadeout_def
      write_audiofile_def compress_finally_def close_clip_def close_unopened compression_failed_def
      opened_clip_def)

lemma compress_audio_encoder_returns:
  "fs w fp = Some b \<Longrightarrow> decode env fp b = Inr d \<Longrightarrow>
   fadeout_error env (opened_clip w b d) = None \<Longrightarrow>
   encode env ((opened_clip w b d)\<lparr>faded := True\<rparr>) = Inr written \<Longrightarrow>
     compress_audio env fp tid w =
       (Val (Some (path_join (tempdir env) (audio_filename env fp @ ustr ''.mp3''))),
        compression_returned env fp tid written w)"
  by (cases written)
    (simp_all add: compress_audio_unfold compress_try_def AudioFileClip_def audio_fadeout_def
      write_audiofile_def write_file_def compress_finally_def close_clip_def close_unopened
      compression_returned_def opened_clip_def)

text \<open>
  C6, as the code has it. Every call of the normaliser leaves the set of open decoder
  handles as it found it: the handle that \<^verbatim>\<open>AudioFileClip\<close> opened is closed on every
  path out of the function. The call never raises. Whenever a step raises (the file is
  missing, the decoder rejects it, the fade-out fails, the encoder raises), the call
  returns \<^verbatim>\<open>None\<close> and the only change to the world is two log lines tagged with the
  task id, the second an error line with the message of the exception. Whenever the
  encoder returns, the call returns the path of the compressed file and logs no error,
  whether the encoder wrote the file or not.
\<close>

theorem compress_audio_releases_decoder:
  "readers (snd (compress_audio env filepath task_id w)) = readers w \<and>
   (\<exists>r. fst (compress_audio env filepath task_id w) = Val r) \<and>
   (fs w filepath = None \<longrightarrow>
      compress_audio env filepath task_id w =
        (Val None, compression_failed filepath task_id (file_not_found filepath) w)) \<and>
   (\<forall>b e. fs w filepath = Some b \<and> decode env filepath b = Inl e \<longrightarrow>
      compress_audio env filepath task_id w = (Val None, compression_failed filepath task_id e w)) \<and>
   (\<forall>b d e. fs w filepath = Some b \<and> decode env filepath b = Inr d \<and>
      fadeout_error env (opened_clip w b d) = Some e \<longrightarrow>
      compress_audio env filepath task_id w = (Val None, compression_failed filepath task_id e w)) \<and>
   (\<forall>b d e. fs w filepath = Some b \<and> decode env filepath b = Inr d \<and>
      fadeout_error env (opened_clip w b d) = None \<and>
      encode env ((opened_clip w b d)\<lparr>faded := True\<rparr>) = Inl e \<longrightarrow>
      compress_audio env filepath task_id w = (Val None, compression_failed filepath task_id e w)) \<and>
   (\<forall>b d written. fs w filepath = Some b \<and> decode env filepath b = Inr d \<and>
      fadeout_error env (opened_clip w b d) = None \<and>
      encode env ((opened_clip w b d)\<lparr>faded := True\<rparr>) = Inr written \<longrightarrow>
      compress_audio env filepath task_id w =
        (Val (Some (path_join (tempdir env) (audio_filename env filepath @ ustr ''.mp3''))),
         compression_returned env filepath task_id written w))"
proof (intro conjI allI impI)
  show "readers (snd (compress_audio env filepath task_id w)) = readers w"
    by (rule compress_audio_readers)
next
  from compress_audio_returns [of env filepath task_id w]
  show "\<exists>r. fst (compress_audio env filepath task_id w) = Val r"
    by auto
next
  assume "fs w filepath = None"
  then show "compress_audio env filepath task_id w =
        (Val None, compression_failed filepath task_id (file_not_found filepath) w)"
    by (rule compress_audio_missing_file)
next
  fix b e
  assume "fs w filepath = Some b \<and> decode env filepath b = Inl e"
  then show "compress_audio env filepath task_id w = (Val None, compression_failed filepath task_id e w)"
    by (simp add: compress_audio_decode_fails)
next
  fix b d e
  assume "fs w filepath = Some b \<and> decode env filepath b = Inr d \<and>
      fadeout_error env (opened_clip w b d) = Some e"
  then show "compress_audio env filepath task_id w = (Val None, compression_failed filepath task_id e w)"
    using compress_audio_fadeout_fails [of w filepath b env d e task_id] by blast
next
  fix b d e
  assume "fs w filepath = Some b \<and> decode env filepath b = Inr d \<and>
      fadeout_error env (opened_clip w b d) = None \<and>
      encode env ((opened_clip w b d)\<lparr>faded := True\<rparr>) = Inl e"
  then show "compress_audio env filepath task_id w = (Val None, compression_failed filepath task_id e w)"
    using compress_audio_encode_fails [of w filepath b env d e task_id] by blast
next
  fix b d written
  assume "fs w filepath = Some b \<and> decode env filepath b = Inr d \<and>
      fadeout_error env (opened_clip w b d) = None \<and>
      encode env ((opened_clip w b d)\<lparr>faded := True\<rparr>) = Inr written"
  then show "compress_audio env filepath task_id w =
        (Val (Some (path_join (tempdir env) (audio_filename env filepath @ ustr ''.mp3''))),
         compression_returned env filepath task_id written w)"
    using compress_audio_encoder_returns [of w filepath b env d written task_id] by blast
qed

lemma demo_talk_file: "fs demo_world (ustr ''/data/talk.wav'') = Some ''wav''"
  by (simp add: demo_world_def)

lemma demo_no_file: "fs demo_world (ustr ''/data/none.wav'') = None"
  by (simp add: demo_world_def ustr_def)

lemma demo_talk_mp3:
  "path_join (tempdir demo_env) (audio_filename demo_env (ustr ''/data/talk.wav'') @ ustr ''.mp3'')
     = ustr ''/tmp/talk.mp3''"
  by (simp add: audio_filename_def char_defs demo_sel string_defs path_defs Let_def)

theorem compress_audio_releases_decoder_witness:
  "fs demo_world (ustr ''/data/none.wav'') = None \<and>
   compress_audio demo_env (ustr ''/data/none.wav'') (ustr ''t1'') demo_world =
     (Val None, compression_failed (ustr ''/data/none.wav'') (ustr ''t1'')
        (file_not_found (ustr ''/data/none.wav'')) demo_world) \<and>
   fs demo_world (ustr ''/data/talk.wav'') = Some ''wav'' \<and>
   decode env_decode_fails (ustr ''/data/talk.wav'') ''wav'' = Inl bad_audio \<and>
   compress_audio env_decode_fails (ustr ''/data/talk.wav'') (ustr ''t1'') demo_world =
     (Val None, compression_failed (ustr ''/data/talk.wav'') (ustr ''t1'') bad_audio demo_world) \<and>
   decode env_fadeout_fails (ustr ''/data/talk.wav'') ''wav'' = Inr 90 \<and>
   fadeout_error env_fadeout_fails (opened_clip demo_world ''wav'' 90) = Some bad_audio \<and>
   compress_audio env_fadeout_fails (ustr ''/data/talk.wav'') (ustr ''t1'') demo_world =
     (Val None, compression_failed (ustr ''/data/talk.wav'') (ustr ''t1'') bad_audio demo_world) \<and>
   decode env_encode_fails (ustr ''/data/talk.wav'') ''wav'' = Inr 90 \<and>
   fadeout_error env_encode_fails (opened_clip demo_world ''wav'' 90) = None \<and>
   encode env_encode_fails ((opened_clip demo_world ''wav'' 90)\<lparr>faded := True\<rparr>) = Inl bad_audio \<and>
   compress_audio env_encode_fails (ustr ''/data/talk.wav'') (ustr ''t1'') demo_world =
     (Val None, compression_failed (ustr ''/data/talk.wav'') (ustr ''t1'') bad_audio demo_world) \<and>
   decode demo_env (ustr ''/data/talk.wav'') ''wav'' = Inr 90 \<and>
   fadeout_error demo_env (opened_clip demo_world ''wav'' 90) = None \<and>
   encode demo_env ((opened_clip demo_world ''wav'' 90)\<lparr>faded := True\<rparr>) = Inr (Some ''mp3'') \<and>
   compress_audio demo_env (ustr ''/data/talk.wav'') (ustr ''t1'') demo_world =
     (Val (Some (ustr ''/tmp/talk.mp3'')),
      compression_returned demo_env (ustr ''/data/talk.wav'') (ustr ''t1'') (Some ''mp3'') demo_world) \<and>
   readers (snd (compress_audio demo_env (ustr ''/data/talk.wav'') (ustr ''t1'') demo_world)) = []"
proof -
  let ?fp = "ustr ''/data/talk.wav''"
  let ?c = "opened_clip demo_world ''wav'' 90"
  note t0 = compress_audio_releases_decoder [of demo_env "ustr ''/data/none.wav''" "ustr ''t1''" demo_world]
  note t1 = compress_audio_releases_decoder [of env_decode_fails ?fp "ustr ''t1''" demo_world]
  note t2 = compress_audio_releases_decoder [of env_fadeout_fails ?fp "ustr ''t1''" demo_world]
  note t3 = compress_audio_releases_decoder [of env_encode_fails ?fp "ustr ''t1''" demo_world]
  note t4 = compress_audio_releases_decoder [of demo_env ?fp "ustr ''t1''" demo_world]
  note f = demo_talk_file
  from t0 demo_no_file
  have c0: "compress_audio demo_env (ustr ''/data/none.wav'') (ustr ''t1'') demo_world =
     (Val None, compression_failed (ustr ''/data/none.wav'') (ustr ''t1'')
        (file_not_found (ustr ''/data/none.wav'')) demo_world)"
    by blast
  have d1: "decode env_decode_fails ?fp ''wav'' = Inl bad_audio"
    by (simp add: env_decode_fails_def)
  from t1 f d1 have c1: "compress_audio env_decode_fails ?fp (ustr ''t1'') demo_world =
     (Val None, compression_failed ?fp (ustr ''t1'') bad_audio demo_world)"
    by blast
  have d2: "decode env_fadeout_fails ?fp ''wav'' = Inr 90"
    by (simp add: env_fadeout_fails_def demo_env_sel)
  have f2: "fadeout_error env_fadeout_fails ?c = Some bad_audio"
    by (simp add: env_fadeout_fails_def)
  from t2 f d2 f2 have c2: "compress_audio env_fadeout_fails ?fp (ustr ''t1'') demo_world =
     (Val None, compression_failed ?fp (ustr ''t1'') bad_audio demo_world)"
    by blast
  have d3: "decode env_encode_fails ?fp ''wav'' = Inr 90"
    by (simp add: env_encode_fails_def demo_env_sel)
  have f3: "fadeout_error env_encode_fails ?c = None"
    by (simp add: env_encode_fails_def demo_env_sel)
  have e3: "encode env_encode_fails (?c\<lparr>faded := True\<rparr>) = Inl bad_audio"
    by (simp add: env_encode_fails_def)
  from t3 f d3 f3 e3 have c3: "compress_audio env_encode_fails ?fp (ustr ''t1'') demo_world =
     (Val None, compression_failed ?fp (ustr ''t1'') bad_audio demo_world)"
    by blast
  have d4: "decode demo_env ?fp ''wav'' = Inr 90"
    by (simp add: demo_env_sel)
  have f4: "fadeout_error demo_env ?c = None"
    by (simp add: demo_env_sel)
  have e4: "encode demo_env (?c\<lparr>faded := True\<rparr>) = Inr (Some ''mp3'')"
    by (simp add: demo_env_sel)
  from t4 [unfolded demo_talk_mp3] f d4 f4 e4
  have c4: "compress_audio demo_env ?fp (ustr ''t1'') demo_world =
     (Val (Some (ustr ''/tmp/talk.mp3'')),
      compression_returned demo_env ?fp (ustr ''t1'') (Some ''mp3'') demo_world)"
    by blast
  have "readers demo_world = []"
    by (simp add: demo_world_def)
  with t4 have r: "readers (snd (compress_audio demo_env ?fp (ustr ''t1'') demo_world)) = []"
    by simp
  from demo_no_file c0 f d1 c1 d2 f2 c2 d3 f3 e3 c3 d4 f4 e4 c4 r show ?thesis
    by (intro conjI)
qed

text \<open>
  C6, as stated, fails for a failure that raises nothing: here the encoder returns and
  has written no file. The call returns the path of the compressed file, which does not
  exist, and the log holds the one line of the start and no error.
\<close>

theorem silent_encoder_counterexample:
  "encode env_encoder_silent ((opened_clip demo_world ''wav'' 90)\<lparr>faded := True\<rparr>) = Inr None \<and>
   fst (compress_audio env_encoder_silent (ustr ''/data/talk.wav'') (ustr ''t1'') demo_world) =
     Val (Some (ustr ''/tmp/talk.mp3'')) \<and>
   fs (snd (compress_audio env_encoder_silent (ustr ''/data/talk.wav'') (ustr ''t1'') demo_world))
     (ustr ''/tmp/talk.mp3'') = None \<and>
   logged (snd (compress_audio env_encoder_silent (ustr ''/data/talk.wav'') (ustr ''t1'') demo_world)) =
     [(INFO, tagged (ustr ''t1'') (ustr ''Compressing audio: /data/talk.wav''))]"
  by (simp add: env_encoder_silent_def eval_defs)

section \<open>Names of temporary files\<close>

lemma sanitize_chars: "c \<in> set (sanitize U s) \<Longrightarrow> is_word U c \<or> c = 45"
  by (auto simp: sanitize_def is_word_underscore)

lemma word_ascii: "c < 128 \<Longrightarrow> is_word U c \<or> c = 45 \<Longrightarrow> ascii_name_char c"
  by (auto simp: is_word_def isalnum_def latin1_alnum_def ascii_name_char_def)

lemma sanitize_length: "length (sanitize U s) = length s"
  by (simp add: sanitize_def)

lemma sanitize_nth:
  "i < length s \<Longrightarrow>
     sanitize U s ! i = (if is_word U (s ! i) \<or> s ! i = 45 then s ! i else 95)"
  by (simp add: sanitize_def)

text \<open>
  C3, as the code has it. The stem of the compressed file is the base name of the path
  handed to the normaliser (the original file, or the download named after the URL or
  the video title), without its extension, character by character: a word character of
  \<^verbatim>\<open>\w\<close> (a letter or digit of any script, or the underscore) and a hyphen are kept
  where they are, and every other character is replaced by an underscore in its place.
  So the stem is as long as that base name, it holds only word characters and hyphens,
  every ASCII character in it is one of \<^verbatim>\<open>[A-Za-z0-9_-]\<close>, and the path returned is that
  stem with \<^verbatim>\<open>.mp3\<close> in the temporary directory.
\<close>

theorem audio_filename_sanitized:
  "length (audio_filename env filepath) = length (splitext_root (basename filepath)) \<and>
   (\<forall>i < length (splitext_root (basename filepath)).
      audio_filename env filepath ! i =
        (if is_word (uni env) (splitext_root (basename filepath) ! i) \<or>
            splitext_root (basename filepath) ! i = 45
         then splitext_root (basename filepath) ! i else 95)) \<and>
   (\<forall>c \<in> set (audio_filename env filepath). is_word (uni env) c \<or> c = 45) \<and>
   (\<forall>c \<in> set (audio_filename env filepath). c < 128 \<longrightarrow> ascii_name_char c) \<and>
   (\<forall>p. fst (compress_audio env filepath task_id w) = Val (Some p) \<longrightarrow>
      p = path_join (tempdir env) (audio_filename env filepath @ ustr ''.mp3''))"
proof (intro conjI ballI allI impI)
  show "length (audio_filename env filepath) = length (splitext_root (basename filepath))"
    by (simp add: audio_filename_def sanitize_length)
next
  fix i assume "i < length (splitext_root (basename filepath))"
  then show "audio_filename env filepath ! i =
        (if is_word (uni env) (splitext_root (basename filepath) ! i) \<or>
            splitext_root (basename filepath) ! i = 45
         then splitext_root (basename filepath) ! i else 95)"
    unfolding audio_filename_def by (rule sanitize_nth)
next
  fix c assume "c \<in> set (audio_filename env filepath)"
  then show "is_word (uni env) c \<or> c = 45"
    unfolding audio_filename_def by (rule sanitize_chars)
next
  fix c assume "c \<in> set (audio_filename env filepath)" and "c < 128"
  then show "ascii_name_char c"
    unfolding audio_filename_def using sanitize_chars word_ascii by blast
next
  fix p assume "fst (compress_audio env filepath task_id w) = Val (Some p)"
  then have "compress_audio env filepath task_id w = (Val (Some p), snd (compress_audio env filepath task_id w))"
    by (metis prod.collapse)
  then show "p = path_join (tempdir env) (audio_filename env filepath @ ustr ''.mp3'')"
    by (rule compress_audio_path)
qed

lemma demo_compress:
  "fst (compress_audio demo_env (ustr ''/data/talk.wav'') (ustr ''t1'') demo_world)
     = Val (Some (ustr ''/tmp/talk.mp3''))"
  by (simp add: stage_defs char_defs demo_sel string_defs path_defs py_defs clip_defs Let_def)

lemma demo_audio_filename: "audio_filename demo_env (ustr ''/data/talk.wav'') = ustr ''talk''"
  by (simp add: audio_filename_def char_defs demo_sel string_defs path_defs Let_def)

lemma spaced_stem: "splitext_root (basename (ustr ''/data/my talk (1).wav'')) = ustr ''my talk (1)''"
  by (simp add: string_defs path_defs Let_def)

lemma spaced_audio_filename:
  "audio_filename demo_env (ustr ''/data/my talk (1).wav'') = ustr ''my_talk__1_''"
  by (simp add: audio_filename_def char_defs demo_sel string_defs path_defs Let_def)

lemma spaced_compress:
  "fst (compress_audio demo_env (ustr ''/data/my talk (1).wav'') (ustr ''t1'') world_spaced)
     = Val (Some (ustr ''/tmp/my_talk__1_.mp3''))"
  by (simp add: world_spaced_def stage_defs char_defs demo_sel string_defs path_defs py_defs
      clip_defs Let_def)

text \<open>
  The file \<^verbatim>\<open>/data/my talk (1).wav\<close>: the space at index 2 is replaced, the letter at
  index 3 is kept, and the stem is \<^verbatim>\<open>my_talk__1_\<close>.
\<close>

theorem audio_filename_sanitized_witness:
  "audio_filename demo_env (ustr ''/data/my talk (1).wav'') = ustr ''my_talk__1_'' \<and>
   length (ustr ''my_talk__1_'') = length (ustr ''my talk (1)'') \<and>
   (2::nat) < length (ustr ''my talk (1)'') \<and> ustr ''my talk (1)'' ! 2 = 32 \<and>
   \<not> (is_word (uni demo_env) 32 \<or> (32::nat) = 45) \<and> ustr ''my_talk__1_'' ! 2 = 95 \<and>
   (3::nat) < length (ustr ''my talk (1)'') \<and> ustr ''my talk (1)'' ! 3 = 116 \<and>
   is_word (uni demo_env) 116 \<and> ustr ''my_talk__1_'' ! 3 = 116 \<and>
   95 \<in> set (ustr ''my_talk__1_'') \<and> (95::nat) < 128 \<and> ascii_name_char 95 \<and>
   fst (compress_audio demo_env (ustr ''/data/my talk (1).wav'') (ustr ''t1'') world_spaced)
     = Val (Some (ustr ''/tmp/my_talk__1_.mp3'')) \<and>
   ustr ''/tmp/my_talk__1_.mp3'' =
     path_join (tempdir demo_env) (ustr ''my_talk__1_'' @ ustr ''.mp3'')"
proof -
  note t = audio_filename_sanitized [of demo_env "ustr ''/data/my talk (1).wav''" "ustr ''t1''"
      world_spaced, unfolded spaced_stem spaced_audio_filename]
  have i2: "(2::nat) < length (ustr ''my talk (1)'')" "ustr ''my talk (1)'' ! 2 = 32"
    by (simp_all add: ustr_def)
  have n2: "\<not> (is_word (uni demo_env) 32 \<or> (32::nat) = 45)"
    by (simp add: char_defs demo_sel)
  have i3: "(3::nat) < length (ustr ''my talk (1)'')" "ustr ''my talk (1)'' ! 3 = 116"
    by (simp_all add: ustr_def)
  have w3: "is_word (uni demo_env) 116"
    by (simp add: char_defs demo_sel)
  from t have l: "length (ustr ''my_talk__1_'') = length (ustr ''my talk (1)'')"
    by blast
  from t i2(1) have "ustr ''my_talk__1_'' ! 2 =
      (if is_word (uni demo_env) (ustr ''my talk (1)'' ! 2) \<or> ustr ''my talk (1)'' ! 2 = 45
       then ustr ''my talk (1)'' ! 2 else 95)"
    by blast
  with i2(2) n2 have r2: "ustr ''my_talk__1_'' ! 2 = 95"
    by simp
  from t i3(1) have "ustr ''my_talk__1_'' ! 3 =
      (if is_word (uni demo_env) (ustr ''my talk (1)'' ! 3) \<or> ustr ''my talk (1)'' ! 3 = 45
       then ustr ''my talk (1)'' ! 3 else 95)"
    by blast
  with i3(2) w3 have r3: "ustr ''my_talk__1_'' ! 3 = 116"
    by simp
  have m: "95 \<in> set (ustr ''my_talk__1_'')"
    by (simp add: ustr_def)
  from t m have a: "ascii_name_char 95"
    by simp
  from t spaced_compress have c: "ustr ''/tmp/my_talk__1_.mp3'' =
     path_join (tempdir demo_env) (ustr ''my_talk__1_'' @ ustr ''.mp3'')"
    by blast
  from spaced_audio_filename l i2 n2 r2 i3 w3 r3 m a spaced_compress c show ?thesis
    by (intro conjI) simp_all
qed

text \<open>
  C3, as stated, fails: a letter outside ASCII is a word character and is kept, so the
  stem for \<^verbatim>\<open>/data/caf\<close>\<open>\<eacute>\<close>\<^verbatim>\<open>.wav\<close> holds U+00E9; and the name requested for the download
  of a video is built from the title as it is, here with a space.
\<close>

theorem unsanitized_names_counterexample:
  "audio_filename demo_env (ustr ''/data/caf'' @ [233] @ ustr ''.wav'') = ustr ''caf'' @ [233] \<and>
   \<not> ascii_name_char 233 \<and>
   youtube_temp_filename (ustr ''t1'') (ustr ''a talk'') = ustr ''t1_a talk.m4a'' \<and>
   \<not> ascii_name_char 32"
  by (simp add: audio_filename_def youtube_temp_filename_def char_defs demo_sel string_defs path_defs
      Let_def ascii_name_char_def)

section \<open>The intermediate download is removed\<close>

lemma unlink_removes: "fs (snd (unlink_if_exists p w)) p = None"
  by (simp add: unlink_if_exists_def)

lemma unlink_returns: "fst (unlink_if_exists p w) = Val ()"
  by (simp add: unlink_if_exists_def)

lemma try_except_val: "m w = (Val x, w') \<Longrightarrow> try_except m h w = (Val x, w')"
  by (simp add: try_except_def)

lemma process_youtube_downloaded:
  assumes t: "yt_title env url = Inr video_title"
    and d: "yt_download env url (tempdir env) (youtube_temp_filename tid video_title) = Inr (p, b)"
  shows "fs (snd (process_youtube env url tid w)) p = None"
proof -
  let ?w1 = "w\<lparr>logged := logged w @ [(INFO, tagged tid (ustr ''Processing YouTube URL: '' @ url))],
               fs := (fs w)(p \<mapsto> b)\<rparr>"
  obtain r w2 where c: "compress_audio env p tid ?w1 = (Val r, w2)"
    using compress_audio_returns by blast
  obtain u w3 where u: "unlink_if_exists p w2 = (Val u, w3)"
    using unlink_returns [of p w2] by (metis prod.collapse)
  from u unlink_removes [of p w2] have "fs w3 p = None" by simp
  moreover from t d c u have "process_youtube env url tid w = (Val r, w3)"
    by (simp add: process_youtube_def download_stream_def py_defs Let_def)
  ultimately show ?thesis by simp
qed

lemma download_to_ok:
  assumes "open_error env p = None" and "http_get env url = Inr response"
    and "status_code response = 200 \<longrightarrow> stream_error response = None"
  shows "\<exists>w'. download_to env url p w = (Val (), w')"
  using assms by (simp add: download_to_def write_file_def py_defs Let_def)

lemma process_web_url_downloaded:
  assumes o: "open_error env (web_temp_path env url) = None"
    and g: "http_get env url = Inr response"
    and s: "status_code response = 200 \<longrightarrow> stream_error response = None"
  shows "fs (snd (process_web_url env url tid w)) (web_temp_path env url) = None"
proof -
  let ?p = "web_temp_path env url"
  let ?w0 = "w\<lparr>logged := logged w @ [(INFO, tagged tid (ustr ''Processing web URL: '' @ url))]\<rparr>"
  obtain w1 where dl: "download_to env url ?p ?w0 = (Val (), w1)"
    using download_to_ok [OF o g s] by blast
  obtain r w2 where c: "compress_audio env ?p tid w1 = (Val r, w2)"
    using compress_audio_returns by blast
  obtain u w3 where u: "unlink_if_exists ?p w2 = (Val u, w3)"
    using unlink_returns [of ?p w2] by (metis prod.collapse)
  from u unlink_removes [of ?p w2] have "fs w3 ?p = None" by simp
  moreover from dl c u have "process_web_url env url tid w = (Val r, w3)"
    by (simp add: process_web_url_def py_return_def py_bind_def py_seq_def try_except_def
        log_info_def Let_def)
  ultimately show ?thesis by simp
qed

lemma process_youtube_returns: "\<exists>r w'. process_youtube env url tid w = (Val r, w')"
  by (simp add: process_youtube_def py_defs split: prod.splits res.splits)

lemma process_web_url_returns: "\<exists>r w'. process_web_url env url tid w = (Val r, w')"
  by (simp add: process_web_url_def py_defs Let_def split: prod.splits res.splits)

lemma media_processor_dispatch:
  "media_processor env input_path tid w =
     (case classify env w input_path of
        LocalFile \<Rightarrow> compress_audio env input_path tid w
      | StreamingUrl \<Rightarrow> process_youtube env input_path tid w
      | GenericUrl \<Rightarrow> process_web_url env input_path tid w
      | Invalid \<Rightarrow>
          (Val None, w\<lparr>logged := logged w @
             [(ERROR, tagged tid (ustr ''Invalid input: not a file path or URL''))]\<rparr>))"
proof -
  obtain r1 w1 where a: "compress_audio env input_path tid w = (Val r1, w1)"
    using compress_audio_returns by blast
  obtain r2 w2 where b: "process_youtube env input_path tid w = (Val r2, w2)"
    using process_youtube_returns by blast
  obtain r3 w3 where c: "process_web_url env input_path tid w = (Val r3, w3)"
    using process_web_url_returns by blast
  from a b c show ?thesis
    by (simp add: media_processor_def classify_def try_except_def py_seq_def py_bind_def
        py_return_def log_error_def)
qed

text \<open>
  C5. When the input is classified as a streaming URL and the title and the audio stream
  were fetched, the downloaded file no longer exists when acquisition returns; when it is
  classified as a generic URL and the download into the \<^verbatim>\<open>.mp4\<close> file went through
  (the file was opened, the GET returned, the body was streamed when the status was 200),
  that file no longer exists either. Nothing is assumed of the normalisation in between.
\<close>

theorem download_removed_after_acquisition:
  "(classify env w input_path = StreamingUrl \<and> yt_title env input_path = Inr video_title \<and>
    yt_download env input_path (tempdir env) (youtube_temp_filename task_id video_title)
      = Inr (downloaded_file, b) \<longrightarrow>
    fs (snd (media_processor env input_path task_id w)) downloaded_file = None) \<and>
   (classify env w input_path = GenericUrl \<and>
    open_error env (web_temp_path env input_path) = None \<and>
    http_get env input_path = Inr response \<and>
    (status_code response = 200 \<longrightarrow> stream_error response = None) \<longrightarrow>
    fs (snd (media_processor env input_path task_id w)) (web_temp_path env input_path) = None)"
proof (intro conjI impI)
  assume a: "classify env w input_path = StreamingUrl \<and> yt_title env input_path = Inr video_title \<and>
    yt_download env input_path (tempdir env) (youtube_temp_filename task_id video_title)
      = Inr (downloaded_file, b)"
  then have "media_processor env input_path task_id w = process_youtube env input_path task_id w"
    by (simp add: media_processor_dispatch)
  with a show "fs (snd (media_processor env input_path task_id w)) downloaded_file = None"
    by (simp add: process_youtube_downloaded)
next
  assume a: "classify env w input_path = GenericUrl \<and>
    open_error env (web_temp_path env input_path) = None \<and>
    http_get env input_path = Inr response \<and>
    (status_code response = 200 \<longrightarrow> stream_error response = None)"
  then have "media_processor env input_path task_id w = process_web_url env input_path task_id w"
    by (simp add: media_processor_dispatch)
  with a show "fs (snd (media_processor env input_path task_id w)) (web_temp_path env input_path) = None"
    using process_web_url_downloaded [of env input_path response task_id w] by simp
qed

lemma demo_classify:
  "classify demo_env demo_world (ustr ''/data/talk.wav'') = LocalFile"
  "classify demo_env demo_world (ustr ''youtu.be/xyz'') = StreamingUrl"
  "classify demo_env demo_world (ustr ''http://example.com/a.mp4?x=1'') = GenericUrl"
  "classify demo_env demo_world (ustr ''/tmp/missing.mp4'') = Invalid"
  by (simp_all add: classify_def isfile_def is_youtube_url_def youtube_regex_def is_url_def
      url_regex_def opt_def chr_def plus_def is_word_def isalnum_def latin1_alnum_def
      demo_sel ustr_def)

lemma demo_web_temp_path:
  "web_temp_path demo_env (ustr ''http://example.com/a.mp4?x=1'') = ustr ''/tmp/a.mp4.mp4''"
  by (simp add: web_temp_path_def web_filename_def path_defs string_defs demo_sel Let_def)

theorem download_removed_after_acquisition_witness:
  "classify demo_env demo_world (ustr ''youtu.be/xyz'') = StreamingUrl \<and>
   yt_title demo_env (ustr ''youtu.be/xyz'') = Inr (ustr ''a talk'') \<and>
   yt_download demo_env (ustr ''youtu.be/xyz'') (tempdir demo_env)
       (youtube_temp_filename (ustr ''t1'') (ustr ''a talk''))
     = Inr (ustr ''/tmp/t1_a talk.m4a'', ''m4a'') \<and>
   fs (snd (media_processor demo_env (ustr ''youtu.be/xyz'') (ustr ''t1'') demo_world))
      (ustr ''/tmp/t1_a talk.m4a'') = None \<and>
   classify demo_env demo_world (ustr ''http://example.com/a.mp4?x=1'') = GenericUrl \<and>
   open_error demo_env (ustr ''/tmp/a.mp4.mp4'') = None \<and>
   http_get demo_env (ustr ''http://example.com/a.mp4?x=1'')
     = Inr demo_response \<and>
   fs (snd (media_processor demo_env (ustr ''http://example.com/a.mp4?x=1'') (ustr ''t1'') demo_world))
      (ustr ''/tmp/a.mp4.mp4'') = None"
proof -
  have t: "yt_title demo_env (ustr ''youtu.be/xyz'') = Inr (ustr ''a talk'')"
    by (simp add: demo_sel)
  have d: "yt_download demo_env (ustr ''youtu.be/xyz'') (tempdir demo_env)
       (youtube_temp_filename (ustr ''t1'') (ustr ''a talk''))
     = Inr (ustr ''/tmp/t1_a talk.m4a'', ''m4a'')"
    by (simp add: demo_sel youtube_temp_filename_def path_defs string_defs)
  have o: "open_error demo_env (ustr ''/tmp/a.mp4.mp4'') = None"
    by (simp add: demo_sel)
  have g: "http_get demo_env (ustr ''http://example.com/a.mp4?x=1'')
     = Inr demo_response"
    by (simp add: demo_sel)
  from demo_classify(2) t d
    download_removed_after_acquisition [of demo_env demo_world "ustr ''youtu.be/xyz''"
      "ustr ''a talk''" "ustr ''t1''" "ustr ''/tmp/t1_a talk.m4a''" "''m4a''"]
  have y: "fs (snd (media_processor demo_env (ustr ''youtu.be/xyz'') (ustr ''t1'') demo_world))
      (ustr ''/tmp/t1_a talk.m4a'') = None"
    by blast
  from demo_classify(3) o g demo_web_temp_path
    download_removed_after_acquisition [of demo_env demo_world "ustr ''http://example.com/a.mp4?x=1''"
      _ "ustr ''t1''" _ _ demo_response]
  have u: "fs (snd (media_processor demo_env (ustr ''http://example.com/a.mp4?x=1'') (ustr ''t1'') demo_world))
      (ustr ''/tmp/a.mp4.mp4'') = None"
    by (simp add: demo_response_def)
  from demo_classify(2) t d y demo_classify(3) o g u show ?thesis
    by (intro conjI)
qed

section \<open>The download of a generic URL\<close>

lemma write_chunks_fs:
  "fs w p = Some old \<Longrightarrow> fs (write_chunks p cs w) = (fs w)(p \<mapsto> old @ concat cs)"
proof (induction cs arbitrary: w old)
  case Nil
  then show ?case by (simp add: fun_upd_idem)
next
  case (Cons c cs)
  have "fs (f_write p c w) p = Some (old @ c)"
    using Cons.prems by (simp add: f_write_def)
  from Cons.IH [OF this]
  have "fs (write_chunks p cs (f_write p c w)) = (fs (f_write p c w))(p \<mapsto> (old @ c) @ concat cs)" .
  then show ?case using Cons.prems by (simp add: f_write_def)
qed

lemma write_chunks_writes:
  "writes (write_chunks p cs w) = writes w @ map (Pair p) cs"
  by (induction cs arbitrary: w) (simp_all add: f_write_def)

lemma write_chunks_frame:
  "logged (write_chunks p cs w) = logged w \<and> readers (write_chunks p cs w) = readers w"
  by (induction cs arbitrary: w) (simp_all add: f_write_def)

lemma path_join_suffix: "\<exists>stem. path_join a (b @ x) = stem @ x"
  by (auto simp: path_join_def)

lemma download_to_other_status:
  "open_error env p = None \<Longrightarrow> http_get env url = Inr r \<Longrightarrow> status_code r \<noteq> 200 \<Longrightarrow>
     download_to env url p w = (Val (), w\<lparr>fs := (fs w)(p \<mapsto> [])\<rparr>)"
  by (simp add: download_to_def write_file_def py_defs)

lemma download_to_200:
  "open_error env p = None \<Longrightarrow> http_get env url = Inr r \<Longrightarrow> status_code r = 200 \<Longrightarrow>
     snd (download_to env url p w) =
       write_chunks p (iter_content r 8192) (w\<lparr>fs := (fs w)(p \<mapsto> [])\<rparr>)"
  by (simp add: download_to_def write_file_def py_defs Let_def split: option.splits)

text \<open>The calls of \<^verbatim>\<open>f.write\<close> that the block makes, whatever the collaborators do.\<close>

lemma download_to_writes:
  "writes (snd (download_to env url p w)) =
     writes w @
       (case open_error env p of
          Some e \<Rightarrow> []
        | None \<Rightarrow>
            (case http_get env url of
               Inl e \<Rightarrow> []
             | Inr r \<Rightarrow> if status_code r = 200 then map (Pair p) (iter_content r 8192) else []))"
  by (simp add: download_to_def write_file_def py_defs Let_def write_chunks_writes
      split: option.splits sum.splits)

lemma unlink_writes: "writes (snd (unlink_if_exists p w)) = writes w"
  by (simp add: unlink_if_exists_def)

lemma process_web_url_writes:
  "writes (snd (process_web_url env url tid w)) =
     writes (snd (download_to env url (web_temp_path env url)
       (w\<lparr>logged := logged w @ [(INFO, tagged tid (ustr ''Processing web URL: '' @ url))]\<rparr>)))"
proof -
  let ?p = "web_temp_path env url"
  let ?w0 = "w\<lparr>logged := logged w @ [(INFO, tagged tid (ustr ''Processing web URL: '' @ url))]\<rparr>"
  obtain r1 w1 where d: "download_to env url ?p ?w0 = (r1, w1)"
    by (metis surj_pair)
  show ?thesis
  proof (cases r1)
    case (Raise e)
    with d show ?thesis
      by (simp add: process_web_url_def py_return_def py_bind_def py_seq_def try_except_def
          log_info_def log_error_def Let_def)
  next
    case (Val u)
    obtain r w2 where c: "compress_audio env ?p tid w1 = (Val r, w2)"
      using compress_audio_returns by blast
    obtain v w3 where u: "unlink_if_exists ?p w2 = (Val v, w3)"
      using unlink_returns [of ?p w2] by (metis prod.collapse)
    from c compress_audio_writes [of env ?p tid w1] have "writes w2 = writes w1" by simp
    moreover from u unlink_writes [of ?p w2] have "writes w3 = writes w2" by simp
    moreover from Val d c u have "process_web_url env url tid w = (Val r, w3)"
      by (simp add: process_web_url_def py_return_def py_bind_def py_seq_def try_except_def
          log_info_def Let_def)
    ultimately show ?thesis using d by simp
  qed
qed

lemma generic_url_writes:
  assumes "classify env w url = GenericUrl"
  shows "writes (snd (media_processor env url tid w)) =
     writes w @
       (case open_error env (web_temp_path env url) of
          Some e \<Rightarrow> []
        | None \<Rightarrow>
            (case http_get env url of
               Inl e \<Rightarrow> []
             | Inr r \<Rightarrow>
                 if status_code r = 200
                 then map (Pair (web_temp_path env url)) (iter_content r 8192) else []))"
  using assms
  by (simp add: media_processor_dispatch process_web_url_writes download_to_writes)

text \<open>
  C7, as the code has it. The file of a generic URL is named with the suffix \<^verbatim>\<open>.mp4\<close>.
  In an acquisition of a generic URL, when the file was opened and the GET returned with
  status 200, the calls of \<^verbatim>\<open>f.write\<close> are, in order, one for each piece that the
  response yields when iterated with a chunk size of 8192, each on that file, and after
  the download the file holds those pieces one after the other. In every other case (the
  status is not 200, the file could not be opened, the GET raised) the acquisition writes
  no data; with a status other than 200 the download leaves the file empty and changes
  nothing else.
\<close>

theorem download_writes_only_on_200:
  "(\<exists>stem. web_temp_path env url = stem @ ustr ''.mp4'') \<and>
   (classify env w url = GenericUrl \<and> open_error env (web_temp_path env url) = None \<and>
    http_get env url = Inr r \<and> status_code r = 200 \<longrightarrow>
      writes (snd (media_processor env url task_id w)) =
        writes w @ map (Pair (web_temp_path env url)) (iter_content r 8192) \<and>
      fs (snd (download_to env url (web_temp_path env url) w)) (web_temp_path env url)
        = Some (concat (iter_content r 8192))) \<and>
   (classify env w url = GenericUrl \<and>
    \<not> (open_error env (web_temp_path env url) = None \<and>
       (\<exists>r'. http_get env url = Inr r' \<and> status_code r' = 200)) \<longrightarrow>
      writes (snd (media_processor env url task_id w)) = writes w) \<and>
   (open_error env (web_temp_path env url) = None \<and> http_get env url = Inr r \<and>
    status_code r \<noteq> 200 \<longrightarrow>
      download_to env url (web_temp_path env url) w =
        (Val (), w\<lparr>fs := (fs w)(web_temp_path env url \<mapsto> [])\<rparr>))"
proof (intro conjI impI)
  show "\<exists>stem. web_temp_path env url = stem @ ustr ''.mp4''"
    unfolding web_temp_path_def by (rule path_join_suffix)
next
  assume a: "classify env w url = GenericUrl \<and> open_error env (web_temp_path env url) = None \<and>
    http_get env url = Inr r \<and> status_code r = 200"
  then show "writes (snd (media_processor env url task_id w)) =
        writes w @ map (Pair (web_temp_path env url)) (iter_content r 8192)"
    by (simp add: generic_url_writes)
  from a have s: "snd (download_to env url (web_temp_path env url) w) =
        write_chunks (web_temp_path env url) (iter_content r 8192)
          (w\<lparr>fs := (fs w)(web_temp_path env url \<mapsto> [])\<rparr>)"
    by (simp add: download_to_200)
  have "fs (w\<lparr>fs := (fs w)(web_temp_path env url \<mapsto> [])\<rparr>) (web_temp_path env url) = Some []"
    by simp
  from write_chunks_fs [OF this, of "iter_content r 8192"]
  show "fs (snd (download_to env url (web_temp_path env url) w)) (web_temp_path env url)
        = Some (concat (iter_content r 8192))"
    by (simp add: s)
next
  assume a: "classify env w url = GenericUrl \<and>
    \<not> (open_error env (web_temp_path env url) = None \<and>
       (\<exists>r'. http_get env url = Inr r' \<and> status_code r' = 200))"
  then have "(case open_error env (web_temp_path env url) of
          Some e \<Rightarrow> []
        | None \<Rightarrow>
            (case http_get env url of
               Inl e \<Rightarrow> []
             | Inr r \<Rightarrow>
                 if status_code r = 200
                 then map (Pair (web_temp_path env url)) (iter_content r 8192) else [])) = []"
    by (auto split: option.splits sum.splits)
  with a show "writes (snd (media_processor env url task_id w)) = writes w"
    by (simp add: generic_url_writes)
next
  assume "open_error env (web_temp_path env url) = None \<and> http_get env url = Inr r \<and>
    status_code r \<noteq> 200"
  then show "download_to env url (web_temp_path env url) w =
        (Val (), w\<lparr>fs := (fs w)(web_temp_path env url \<mapsto> [])\<rparr>)"
    by (simp add: download_to_other_status)
qed

lemma env_not_found_temp_path:
  "web_temp_path env_not_found (ustr ''http://example.com/a.mp4?x=1'') = ustr ''/tmp/a.mp4.mp4''"
  by (simp add: web_temp_path_def web_filename_def path_defs string_defs demo_sel Let_def
      env_not_found_def)

lemma env_not_found_classify:
  "classify env_not_found demo_world (ustr ''http://example.com/a.mp4?x=1'') = GenericUrl"
  by (simp add: classify_def isfile_def is_youtube_url_def youtube_regex_def is_url_def
      url_regex_def opt_def chr_def plus_def is_word_def isalnum_def latin1_alnum_def
      env_not_found_def demo_sel ustr_def)

theorem download_writes_only_on_200_witness:
  "classify demo_env demo_world (ustr ''http://example.com/a.mp4?x=1'') = GenericUrl \<and>
   open_error demo_env (ustr ''/tmp/a.mp4.mp4'') = None \<and>
   http_get demo_env (ustr ''http://example.com/a.mp4?x=1'') = Inr demo_response \<and>
   status_code demo_response = 200 \<and>
   writes (snd (media_processor demo_env (ustr ''http://example.com/a.mp4?x=1'') (ustr ''t1'') demo_world))
     = [(ustr ''/tmp/a.mp4.mp4'', ''mp''), (ustr ''/tmp/a.mp4.mp4'', ''4'')] \<and>
   fs (snd (download_to demo_env (ustr ''http://example.com/a.mp4?x=1'') (ustr ''/tmp/a.mp4.mp4'') demo_world))
     (ustr ''/tmp/a.mp4.mp4'') = Some ''mp4'' \<and>
   classify env_not_found demo_world (ustr ''http://example.com/a.mp4?x=1'') = GenericUrl \<and>
   open_error env_not_found (ustr ''/tmp/a.mp4.mp4'') = None \<and>
   http_get env_not_found (ustr ''http://example.com/a.mp4?x=1'') = Inr not_found \<and>
   status_code not_found \<noteq> 200 \<and>
   writes (snd (media_processor env_not_found (ustr ''http://example.com/a.mp4?x=1'') (ustr ''t1'') demo_world))
     = [] \<and>
   download_to env_not_found (ustr ''http://example.com/a.mp4?x=1'') (ustr ''/tmp/a.mp4.mp4'') demo_world
     = (Val (), demo_world\<lparr>fs := (fs demo_world)(ustr ''/tmp/a.mp4.mp4'' \<mapsto> [])\<rparr>)"
proof -
  let ?url = "ustr ''http://example.com/a.mp4?x=1''"
  note t1 = download_writes_only_on_200 [of demo_env ?url demo_world demo_response "ustr ''t1''",
      unfolded demo_web_temp_path]
  note t2 = download_writes_only_on_200 [of env_not_found ?url demo_world not_found "ustr ''t1''",
      unfolded env_not_found_temp_path]
  have w0: "writes demo_world = []"
    by (simp add: demo_world_def)
  have o1: "open_error demo_env (ustr ''/tmp/a.mp4.mp4'') = None"
    by (simp add: demo_sel)
  have g1: "http_get demo_env ?url = Inr demo_response"
    by (simp add: demo_sel)
  have s1: "status_code demo_response = 200"
    by (simp add: demo_response_def)
  have i1: "iter_content demo_response 8192 = [''mp'', ''4'']"
    by (simp add: demo_response_def)
  from t1 demo_classify(3) o1 g1 s1
  have "writes (snd (media_processor demo_env ?url (ustr ''t1'') demo_world)) =
        writes demo_world @ map (Pair (ustr ''/tmp/a.mp4.mp4'')) (iter_content demo_response 8192)"
    and "fs (snd (download_to demo_env ?url (ustr ''/tmp/a.mp4.mp4'') demo_world)) (ustr ''/tmp/a.mp4.mp4'')
        = Some (concat (iter_content demo_response 8192))"
    by blast+
  with w0 i1 have c1: "writes (snd (media_processor demo_env ?url (ustr ''t1'') demo_world))
     = [(ustr ''/tmp/a.mp4.mp4'', ''mp''), (ustr ''/tmp/a.mp4.mp4'', ''4'')]"
    and c2: "fs (snd (download_to demo_env ?url (ustr ''/tmp/a.mp4.mp4'') demo_world))
     (ustr ''/tmp/a.mp4.mp4'') = Some ''mp4''"
    by simp_all
  have o2: "open_error env_not_found (ustr ''/tmp/a.mp4.mp4'') = None"
    by (simp add: env_not_found_def demo_sel)
  have g2: "http_get env_not_found ?url = Inr not_found"
    by (simp add: env_not_found_def)
  have s2: "status_code not_found \<noteq> 200"
    by (simp add: not_found_def)
  from g2 s2 have "\<not> (open_error env_not_found (ustr ''/tmp/a.mp4.mp4'') = None \<and>
       (\<exists>r'. http_get env_not_found ?url = Inr r' \<and> status_code r' = 200))"
    by simp
  with t2 env_not_found_classify
  have "writes (snd (media_processor env_not_found ?url (ustr ''t1'') demo_world)) = writes demo_world"
    by blast
  with w0 have c3: "writes (snd (media_processor env_not_found ?url (ustr ''t1'') demo_world)) = []"
    by simp
  from t2 o2 g2 s2
  have c4: "download_to env_not_found ?url (ustr ''/tmp/a.mp4.mp4'') demo_world
     = (Val (), demo_world\<lparr>fs := (fs demo_world)(ustr ''/tmp/a.mp4.mp4'' \<mapsto> [])\<rparr>)"
    by blast
  from demo_classify(3) o1 g1 s1 c1 c2 env_not_found_classify o2 g2 s2 c3 c4 show ?thesis
    by (intro conjI)
qed

text \<open>
  C7, as stated, fails in the size of the chunks: the response is iterated with a chunk
  size of 8192, and here the transport hands the three bytes of the body out in two
  pieces, which are written as they come, two bytes and one.
\<close>

theorem short_chunks_counterexample:
  "classify demo_env demo_world (ustr ''http://example.com/a.mp4?x=1'') = GenericUrl \<and>
   http_get demo_env (ustr ''http://example.com/a.mp4?x=1'') = Inr demo_response \<and>
   iter_content demo_response 8192 = [''mp'', ''4''] \<and>
   writes (snd (media_processor demo_env (ustr ''http://example.com/a.mp4?x=1'') (ustr ''t1'') demo_world))
     = [(ustr ''/tmp/a.mp4.mp4'', ''mp''), (ustr ''/tmp/a.mp4.mp4'', ''4'')] \<and>
   length ''mp'' \<noteq> (8192::nat)"
proof -
  have "writes (snd (media_processor demo_env (ustr ''http://example.com/a.mp4?x=1'') (ustr ''t1'') demo_world))
     = [(ustr ''/tmp/a.mp4.mp4'', ''mp''), (ustr ''/tmp/a.mp4.mp4'', ''4'')]"
    using demo_classify(3)
    by (simp add: generic_url_writes demo_web_temp_path demo_sel demo_response_def)
  with demo_classify(3) show ?thesis
    by (simp add: demo_sel demo_response_def)
qed

section \<open>The result of the pipeline\<close>

lemma pipeline_result:
  "fst (process_media_with acquire ai render env input_path target_language processing_mode w) =
     Val (expected_result
       (stage_outcomes acquire ai render env input_path target_language processing_mode w))"
  by (simp add: process_media_with_def stage_outcomes_def stage_of_def py_defs Let_def
      split: prod.splits res.splits option.splits)

lemma media_processor_returns: "\<exists>r w'. media_processor env input_path tid w = (Val r, w')"
  by (simp add: media_processor_def py_defs split: prod.splits res.splits)

lemma aigc_processor_returns:
  "\<exists>r w'. aigc_processor env input_path target_language processing_mode tid w = (Val r, w')"
  by (simp add: aigc_processor_def py_defs split: prod.splits res.splits)

lemma markdown_to_pdf_returns:
  "\<exists>r w'. markdown_to_pdf env md original_path target_language processing_mode tid w = (Val r, w')"
  by (simp add: markdown_to_pdf_def py_defs split: prod.splits res.splits)

lemma stage_of_val: "stage_of (Val r) = Absent \<or> (\<exists>x. stage_of (Val r) = Returned x)"
  by (simp add: stage_of_def split: option.splits)

lemma stages_never_raise:
  assumes a: "\<And>x t w. \<exists>r w'. acquire x t w = (Val r, w')"
    and b: "\<And>c l m t w. \<exists>r w'. ai c l m t w = (Val r, w')"
    and c: "\<And>md c l m t w. \<exists>r w'. render md c l m t w = (Val r, w')"
  shows "case stage_outcomes acquire ai render env input_path target_language processing_mode w of
           (s1, s2, s3) \<Rightarrow> \<not> is_raised s1 \<and> \<not> is_raised s2 \<and> \<not> is_raised s3"
proof -
  let ?tid = "get_taskid env"
  let ?w0 = "snd (log_info (tagged ?tid
                 (ustr ''Task started: '' @ processing_mode @ ustr '' in '' @ target_language)) w)"
  obtain r1 w1 where 1: "acquire input_path ?tid ?w0 = (Val r1, w1)"
    using a by blast
  from stage_of_val [of r1] show ?thesis
  proof
    assume "stage_of (Val r1) = Absent"
    with 1 show ?thesis by (simp add: stage_outcomes_def)
  next
    assume "\<exists>x. stage_of (Val r1) = Returned x"
    then obtain x where x: "stage_of (Val r1) = Returned x" ..
    obtain r2 w2 where 2: "ai x target_language processing_mode ?tid w1 = (Val r2, w2)"
      using b by blast
    from stage_of_val [of r2] show ?thesis
    proof
      assume "stage_of (Val r2) = Absent"
      with 1 x 2 show ?thesis by (simp add: stage_outcomes_def)
    next
      assume "\<exists>t. stage_of (Val r2) = Returned t"
      then obtain t where t: "stage_of (Val r2) = Returned t" ..
      obtain r3 w3 where 3: "render t x target_language processing_mode ?tid w2 = (Val r3, w3)"
        using c by blast
      from stage_of_val [of r3] 1 x 2 t 3 show ?thesis
        by (auto simp: stage_outcomes_def)
    qed
  qed
qed

text \<open>
  C1. \<^verbatim>\<open>process_media\<close> never raises. Over any three stages, its result is the one the
  specification gives for what the stages did: nothing when acquisition returned no file
  or a stage raised, the compressed file alone when the AI stage or the PDF stage returned
  nothing (\<^verbatim>\<open>None\<close> or an empty string), both files when all three returned. With the
  stages of the repository the same holds, and none of them raises.
\<close>

theorem process_media_result:
  "fst (process_media_with acquire ai render env input_path target_language processing_mode w) =
     Val (expected_result
       (stage_outcomes acquire ai render env input_path target_language processing_mode w)) \<and>
   fst (process_media env input_path target_language processing_mode w) =
     Val (expected_result
       (stage_outcomes (media_processor env) (aigc_processor env) (markdown_to_pdf env)
          env input_path target_language processing_mode w)) \<and>
   (case stage_outcomes (media_processor env) (aigc_processor env) (markdown_to_pdf env)
          env input_path target_language processing_mode w of
      (s1, s2, s3) \<Rightarrow> \<not> is_raised s1 \<and> \<not> is_raised s2 \<and> \<not> is_raised s3)"
proof (intro conjI)
  show "fst (process_media_with acquire ai render env input_path target_language processing_mode w) =
     Val (expected_result
       (stage_outcomes acquire ai render env input_path target_language processing_mode w))"
    by (rule pipeline_result)
next
  show "fst (process_media env input_path target_language processing_mode w) =
     Val (expected_result
       (stage_outcomes (media_processor env) (aigc_processor env) (markdown_to_pdf env)
          env input_path target_language processing_mode w))"
    unfolding process_media_def by (rule pipeline_result)
next
  show "case stage_outcomes (media_processor env) (aigc_processor env) (markdown_to_pdf env)
          env input_path target_language processing_mode w of
      (s1, s2, s3) \<Rightarrow> \<not> is_raised s1 \<and> \<not> is_raised s2 \<and> \<not> is_raised s3"
    by (rule stages_never_raise)
      (rule media_processor_returns aigc_processor_returns markdown_to_pdf_returns)+
qed

lemma demo_stage_outcomes:
  "stage_outcomes (media_processor demo_env) (aigc_processor demo_env) (markdown_to_pdf demo_env)
     demo_env (ustr ''/data/talk.wav'') (ustr ''english'') (ustr ''analysis'') demo_world =
   (Returned (ustr ''/tmp/talk.mp3''), Returned (ustr ''Summary''),
    Returned (ustr ''/tmp/talk_analysis_english.pdf''))"
  by (simp add: stage_outcomes_def stage_of_def eval_defs)

theorem process_media_result_witness:
  "stage_outcomes (media_processor demo_env) (aigc_processor demo_env) (markdown_to_pdf demo_env)
     demo_env (ustr ''/data/talk.wav'') (ustr ''english'') (ustr ''analysis'') demo_world =
   (Returned (ustr ''/tmp/talk.mp3''), Returned (ustr ''Summary''),
    Returned (ustr ''/tmp/talk_analysis_english.pdf'')) \<and>
   fst (process_media demo_env (ustr ''/data/talk.wav'') (ustr ''english'') (ustr ''analysis'') demo_world) =
     Val (Some (ustr ''/tmp/talk.mp3''), Some (ustr ''/tmp/talk_analysis_english.pdf''))"
  using demo_stage_outcomes
    process_media_result [of "media_processor demo_env" "aigc_processor demo_env"
      "markdown_to_pdf demo_env" demo_env "ustr ''/data/talk.wav''" "ustr ''english''"
      "ustr ''analysis''" demo_world]
  by simp

section \<open>Markdown that begins with a heading\<close>

lemma markdown_to_pdf_heading:
  "startswith md (ustr ''# '') \<Longrightarrow>
     fst (markdown_to_pdf env md original_path target_language processing_mode tid w) = Val None"
  by (simp add: markdown_to_pdf_def py_defs read_local_def Let_def split: option.splits)

lemma markdown_to_pdf_unbound_title:
  "startswith md (ustr ''# '') \<Longrightarrow> pdf_add_section env md = None \<Longrightarrow>
     markdown_to_pdf env md original_path target_language processing_mode tid w =
       (Val None, unbound_title_logged env original_path target_language processing_mode tid w)"
  by (simp add: markdown_to_pdf_def py_defs read_local_def Let_def unbound_title_logged_def)

lemma render_outcome:
  "stage_outcomes acquire ai render env i l m w = (Returned c, Returned t, s3) \<Longrightarrow>
     \<exists>w2. s3 = stage_of (fst (render t c l m (get_taskid env) w2))"
  by (auto simp: stage_outcomes_def Let_def split: prod.splits stage.splits)

lemma expected_both:
  "expected_result s = (Some c, Some f) \<Longrightarrow> \<exists>t. s = (Returned c, Returned t, Returned f)"
  by (cases s rule: expected_result.cases) auto

text \<open>
  C2. Markdown that begins with \<^verbatim>\<open># \<close> makes the PDF stage return \<^verbatim>\<open>None\<close>: no branch has
  assigned \<^verbatim>\<open>title\<close> when the metadata are set, and when adding the section went
  through, the error logged is that of the unassigned variable. So when the cleaned text
  of the AI stage begins with \<^verbatim>\<open># \<close>, \<^verbatim>\<open>process_media\<close> returns the compressed file
  and no PDF; and whenever it returns both, that text did not begin with \<^verbatim>\<open># \<close>.
\<close>

theorem heading_makes_pdf_stage_fail:
  "(startswith md (ustr ''# '') \<longrightarrow>
      fst (markdown_to_pdf env md original_path target_language processing_mode task_id w') = Val None) \<and>
   (startswith md (ustr ''# '') \<and> pdf_add_section env md = None \<longrightarrow>
      markdown_to_pdf env md original_path target_language processing_mode task_id w' =
        (Val None, unbound_title_logged env original_path target_language processing_mode task_id w')) \<and>
   (\<forall>c t s3.
      stage_outcomes (media_processor env) (aigc_processor env) (markdown_to_pdf env)
        env input_path target_language processing_mode w = (Returned c, Returned t, s3) \<and>
      startswith t (ustr ''# '') \<longrightarrow>
      fst (process_media env input_path target_language processing_mode w) = Val (Some c, None)) \<and>
   (\<forall>c f. fst (process_media env input_path target_language processing_mode w) = Val (Some c, Some f) \<longrightarrow>
      (\<exists>t. stage_outcomes (media_processor env) (aigc_processor env) (markdown_to_pdf env)
              env input_path target_language processing_mode w = (Returned c, Returned t, Returned f) \<and>
           \<not> startswith t (ustr ''# '')))"
proof (intro conjI allI impI)
  assume "startswith md (ustr ''# '')"
  then show "fst (markdown_to_pdf env md original_path target_language processing_mode task_id w') = Val None"
    by (rule markdown_to_pdf_heading)
next
  assume "startswith md (ustr ''# '') \<and> pdf_add_section env md = None"
  then show "markdown_to_pdf env md original_path target_language processing_mode task_id w' =
        (Val None, unbound_title_logged env original_path target_language processing_mode task_id w')"
    by (simp add: markdown_to_pdf_unbound_title)
next
  fix c t s3
  assume a: "stage_outcomes (media_processor env) (aigc_processor env) (markdown_to_pdf env)
        env input_path target_language processing_mode w = (Returned c, Returned t, s3) \<and>
      startswith t (ustr ''# '')"
  with render_outcome obtain w2 where
    "s3 = stage_of (fst (markdown_to_pdf env t c target_language processing_mode (get_taskid env) w2))"
    by blast
  with a have "s3 = Absent"
    by (simp add: markdown_to_pdf_heading stage_of_def)
  with a show "fst (process_media env input_path target_language processing_mode w) = Val (Some c, None)"
    by (simp add: process_media_def pipeline_result)
next
  fix c f
  assume r: "fst (process_media env input_path target_language processing_mode w) = Val (Some c, Some f)"
  let ?s = "stage_outcomes (media_processor env) (aigc_processor env) (markdown_to_pdf env)
              env input_path target_language processing_mode w"
  from r have "expected_result ?s = (Some c, Some f)"
    by (simp add: process_media_def pipeline_result)
  then obtain t where s: "?s = (Returned c, Returned t, Returned f)"
    using expected_both by blast
  with render_outcome obtain w2 where
    3: "Returned f = stage_of (fst (markdown_to_pdf env t c target_language processing_mode (get_taskid env) w2))"
    by blast
  have "\<not> startswith t (ustr ''# '')"
  proof
    assume "startswith t (ustr ''# '')"
    with 3 show False by (simp add: markdown_to_pdf_heading stage_of_def)
  qed
  with s show "\<exists>t. ?s = (Returned c, Returned t, Returned f) \<and> \<not> startswith t (ustr ''# '')"
    by blast
qed

lemma heading_stage_outcomes:
  "stage_outcomes (media_processor env_heading) (aigc_processor env_heading) (markdown_to_pdf env_heading)
     env_heading (ustr ''/data/talk.wav'') (ustr ''english'') (ustr ''analysis'') demo_world =
   (Returned (ustr ''/tmp/talk.mp3''), Returned (ustr ''# Talk''), Absent)"
  by (simp add: stage_outcomes_def stage_of_def env_heading_def eval_defs)

theorem heading_makes_pdf_stage_fail_witness:
  "startswith (ustr ''# Talk'') (ustr ''# '') \<and>
   pdf_add_section env_heading (ustr ''# Talk'') = None \<and>
   markdown_to_pdf env_heading (ustr ''# Talk'') (ustr ''/tmp/talk.mp3'') (ustr ''english'')
       (ustr ''analysis'') (ustr ''t1'') demo_world =
     (Val None, unbound_title_logged env_heading (ustr ''/tmp/talk.mp3'') (ustr ''english'')
        (ustr ''analysis'') (ustr ''t1'') demo_world) \<and>
   stage_outcomes (media_processor env_heading) (aigc_processor env_heading) (markdown_to_pdf env_heading)
     env_heading (ustr ''/data/talk.wav'') (ustr ''english'') (ustr ''analysis'') demo_world =
     (Returned (ustr ''/tmp/talk.mp3''), Returned (ustr ''# Talk''), Absent) \<and>
   fst (process_media env_heading (ustr ''/data/talk.wav'') (ustr ''english'') (ustr ''analysis'') demo_world)
     = Val (Some (ustr ''/tmp/talk.mp3''), None) \<and>
   fst (process_media demo_env (ustr ''/data/talk.wav'') (ustr ''english'') (ustr ''analysis'') demo_world)
     = Val (Some (ustr ''/tmp/talk.mp3''), Some (ustr ''/tmp/talk_analysis_english.pdf'')) \<and>
   \<not> startswith (ustr ''Summary'') (ustr ''# '')"
proof -
  note t1 = heading_makes_pdf_stage_fail [of "ustr ''# Talk''" env_heading "ustr ''/tmp/talk.mp3''"
      "ustr ''english''" "ustr ''analysis''" "ustr ''t1''" demo_world "ustr ''/data/talk.wav''" demo_world]
  note t2 = heading_makes_pdf_stage_fail [of "ustr ''# Talk''" demo_env "ustr ''/tmp/talk.mp3''"
      "ustr ''english''" "ustr ''analysis''" "ustr ''t1''" demo_world "ustr ''/data/talk.wav''" demo_world]
  have h: "startswith (ustr ''# Talk'') (ustr ''# '')"
    by (simp add: string_defs)
  have a: "pdf_add_section env_heading (ustr ''# Talk'') = None"
    by (simp add: env_heading_def demo_sel)
  from t1 h a have m: "markdown_to_pdf env_heading (ustr ''# Talk'') (ustr ''/tmp/talk.mp3'') (ustr ''english'')
       (ustr ''analysis'') (ustr ''t1'') demo_world =
     (Val None, unbound_title_logged env_heading (ustr ''/tmp/talk.mp3'') (ustr ''english'')
        (ustr ''analysis'') (ustr ''t1'') demo_world)"
    by blast
  from t1 h heading_stage_outcomes
  have p: "fst (process_media env_heading (ustr ''/data/talk.wav'') (ustr ''english'') (ustr ''analysis'') demo_world)
     = Val (Some (ustr ''/tmp/talk.mp3''), None)"
    by blast
  have q: "fst (process_media demo_env (ustr ''/data/talk.wav'') (ustr ''english'') (ustr ''analysis'') demo_world)
     = Val (Some (ustr ''/tmp/talk.mp3''), Some (ustr ''/tmp/talk_analysis_english.pdf''))"
    by (simp add: process_media_def pipeline_result demo_stage_outcomes)
  with t2 have "\<exists>t. stage_outcomes (media_processor demo_env) (aigc_processor demo_env)
       (markdown_to_pdf demo_env) demo_env (ustr ''/data/talk.wav'') (ustr ''english'')
       (ustr ''analysis'') demo_world =
         (Returned (ustr ''/tmp/talk.mp3''), Returned t, Returned (ustr ''/tmp/talk_analysis_english.pdf'')) \<and>
       \<not> startswith t (ustr ''# '')"
    by blast
  with demo_stage_outcomes have n: "\<not> startswith (ustr ''Summary'') (ustr ''# '')"
    by simp
  from h a m heading_stage_outcomes p q n show ?thesis
    by (intro conjI)
qed

section \<open>An invalid processing mode\<close>

lemma aigc_invalid_mode_none:
  "invalid_mode env processing_mode \<Longrightarrow>
     fst (aigc_processor env c target_language processing_mode tid w) = Val None"
  by (simp add: aigc_processor_def invalid_mode_def py_defs split: prod.splits res.splits option.splits)

lemma configure_ok:
  "configured env \<Longrightarrow>
     (case api_key env of None \<Rightarrow> py_return ()
      | Some k \<Rightarrow> if k = [] then py_return () else check (genai_configure env k)) w = (Val (), w)"
  by (cases "api_key env") (auto simp: configured_def py_defs)

lemma aigc_invalid_mode_logged:
  assumes i: "invalid_mode env processing_mode" and k: "configured env"
    and f: "fs w c = Some b" and d: "decode env c b = Inr secs"
  shows "aigc_processor env c target_language processing_mode tid w =
     (Val None, w\<lparr>logged := logged w @
        [(ERROR, tagged tid (ustr ''Invalid processing mode: '' @ processing_mode))]\<rparr>)"
  using i f d configure_ok [OF k, of w]
  by (simp add: aigc_processor_def invalid_mode_def AudioFileClip_def close_clip_def close_unopened
      py_bind_def py_seq_def try_except_def py_return_def log_error_def Let_def)

lemma acquired_outcome:
  assumes s: "stage_outcomes acquire ai render env i l m w = (Returned c, s2, s3)"
  shows "\<exists>w1. s2 = stage_of (fst (ai c l m (get_taskid env) w1))"
proof -
  let ?w0 = "snd (log_info (tagged (get_taskid env)
                 (ustr ''Task started: '' @ m @ ustr '' in '' @ l)) w)"
  obtain r1 w1 where 1: "acquire i (get_taskid env) ?w0 = (r1, w1)"
    by (metis surj_pair)
  from s 1 have c: "stage_of r1 = Returned c"
    by (auto simp: stage_outcomes_def Let_def split: stage.splits prod.splits)
  obtain r2 w2 where 2: "ai c l m (get_taskid env) w1 = (r2, w2)"
    by (metis surj_pair)
  from s 1 c 2 have "s2 = stage_of r2"
    by (auto simp: stage_outcomes_def Let_def split: stage.splits)
  with 2 show ?thesis by (metis fst_conv)
qed

lemma aigc_invalid_mode_error_line:
  "invalid_mode env processing_mode \<Longrightarrow>
     \<exists>msg. logged (snd (aigc_processor env c target_language processing_mode tid w)) =
       logged w @ [(ERROR, tagged tid msg)]"
  by (auto simp: aigc_processor_def invalid_mode_def AudioFileClip_def close_clip_def py_defs
      split: prod.splits res.splits option.splits sum.splits)

lemma aigc_configure_fails:
  "api_key env = Some k \<Longrightarrow> k \<noteq> [] \<Longrightarrow> genai_configure env k = Some e \<Longrightarrow>
     aigc_processor env c target_language processing_mode tid w =
       (Val None, ai_failed processing_mode tid e w)"
  by (simp add: aigc_processor_def ai_failed_def py_defs)

lemma aigc_missing_file:
  "configured env \<Longrightarrow> fs w c = None \<Longrightarrow>
     aigc_processor env c target_language processing_mode tid w =
       (Val None, ai_failed processing_mode tid (file_not_found c) w)"
  using configure_ok [of env w]
  by (simp add: aigc_processor_def ai_failed_def AudioFileClip_def
      py_bind_def py_seq_def try_except_def py_return_def log_error_def)

lemma aigc_decode_fails:
  "configured env \<Longrightarrow> fs w c = Some b \<Longrightarrow> decode env c b = Inl e \<Longrightarrow>
     aigc_processor env c target_language processing_mode tid w =
       (Val None, ai_failed processing_mode tid e w)"
  using configure_ok [of env w]
  by (simp add: aigc_processor_def ai_failed_def AudioFileClip_def
      py_bind_def py_seq_def try_except_def py_return_def log_error_def)

text \<open>
  C8, as the code has it. With a processing mode that is neither \<^verbatim>\<open>analysis\<close> nor
  \<^verbatim>\<open>transcript\<close> in lower case, the AI stage returns \<^verbatim>\<open>None\<close> after logging exactly one
  error line tagged with the task id, and \<^verbatim>\<open>process_media\<close> returns the compressed file
  and no PDF whenever acquisition returned a file. The error line is the one of the
  invalid mode when the steps before the check of the mode went through: the API key was
  configured (or there is none) and the compressed file was opened to read its duration.
  Otherwise it is the line \<^verbatim>\<open>AI <mode> processing failed\<close> with the message of what was
  raised: by the configuration of the API key, or for a compressed file that is missing,
  or by the decoder. In each case nothing else in the world has changed.
\<close>

theorem invalid_mode_result:
  "invalid_mode env processing_mode \<longrightarrow>
     fst (aigc_processor env c target_language processing_mode task_id w1) = Val None \<and>
     (\<exists>msg. logged (snd (aigc_processor env c target_language processing_mode task_id w1)) =
        logged w1 @ [(ERROR, tagged task_id msg)]) \<and>
     (\<forall>c' s2 s3.
        stage_outcomes (media_processor env) (aigc_processor env) (markdown_to_pdf env)
          env input_path target_language processing_mode w = (Returned c', s2, s3) \<longrightarrow>
        fst (process_media env input_path target_language processing_mode w) = Val (Some c', None)) \<and>
     (\<forall>b secs. configured env \<and> fs w1 c = Some b \<and> decode env c b = Inr secs \<longrightarrow>
        aigc_processor env c target_language processing_mode task_id w1 =
          (Val None, w1\<lparr>logged := logged w1 @
             [(ERROR, tagged task_id (ustr ''Invalid processing mode: '' @ processing_mode))]\<rparr>)) \<and>
     (\<forall>k e. api_key env = Some k \<and> k \<noteq> [] \<and> genai_configure env k = Some e \<longrightarrow>
        aigc_processor env c target_language processing_mode task_id w1 =
          (Val None, ai_failed processing_mode task_id e w1)) \<and>
     (configured env \<and> fs w1 c = None \<longrightarrow>
        aigc_processor env c target_language processing_mode task_id w1 =
          (Val None, ai_failed processing_mode task_id (file_not_found c) w1)) \<and>
     (\<forall>b e. configured env \<and> fs w1 c = Some b \<and> decode env c b = Inl e \<longrightarrow>
        aigc_processor env c target_language processing_mode task_id w1 =
          (Val None, ai_failed processing_mode task_id e w1))"
proof (intro impI conjI allI)
  assume i: "invalid_mode env processing_mode"
  then show "fst (aigc_processor env c target_language processing_mode task_id w1) = Val None"
    by (rule aigc_invalid_mode_none)
  from i show "\<exists>msg. logged (snd (aigc_processor env c target_language processing_mode task_id w1)) =
        logged w1 @ [(ERROR, tagged task_id msg)]"
    by (rule aigc_invalid_mode_error_line)
  {
    fix c' s2 s3
    assume s: "stage_outcomes (media_processor env) (aigc_processor env) (markdown_to_pdf env)
          env input_path target_language processing_mode w = (Returned c', s2, s3)"
    from acquired_outcome [OF s] obtain w' where
      "s2 = stage_of (fst (aigc_processor env c' target_language processing_mode (get_taskid env) w'))"
      by blast
    with i have "s2 = Absent"
      by (simp add: aigc_invalid_mode_none stage_of_def)
    with s show "fst (process_media env input_path target_language processing_mode w) = Val (Some c', None)"
      by (simp add: process_media_def pipeline_result)
  }
  {
    fix b secs
    assume "configured env \<and> fs w1 c = Some b \<and> decode env c b = Inr secs"
    with i show "aigc_processor env c target_language processing_mode task_id w1 =
          (Val None, w1\<lparr>logged := logged w1 @
             [(ERROR, tagged task_id (ustr ''Invalid processing mode: '' @ processing_mode))]\<rparr>)"
      by (simp add: aigc_invalid_mode_logged)
  }
  {
    fix k e
    assume "api_key env = Some k \<and> k \<noteq> [] \<and> genai_configure env k = Some e"
    then show "aigc_processor env c target_language processing_mode task_id w1 =
          (Val None, ai_failed processing_mode task_id e w1)"
      by (simp add: aigc_configure_fails)
  }
  {
    assume "configured env \<and> fs w1 c = None"
    then show "aigc_processor env c target_language processing_mode task_id w1 =
          (Val None, ai_failed processing_mode task_id (file_not_found c) w1)"
      by (simp add: aigc_missing_file)
  }
  {
    fix b e
    assume "configured env \<and> fs w1 c = Some b \<and> decode env c b = Inl e"
    then show "aigc_processor env c target_language processing_mode task_id w1 =
          (Val None, ai_failed processing_mode task_id e w1)"
      using aigc_decode_fails [of env w1 c b e] by blast
  }
qed

lemma demo_invalid_mode:
  "invalid_mode demo_env (ustr ''summary'')"
  "invalid_mode env_probe_fails (ustr ''summary'')"
  "invalid_mode env_configure_fails (ustr ''summary'')"
  by (simp_all add: invalid_mode_def char_defs demo_sel ustr_def env_probe_fails_def
      env_configure_fails_def)

lemma demo_summary_outcomes:
  "stage_outcomes (media_processor demo_env) (aigc_processor demo_env) (markdown_to_pdf demo_env)
     demo_env (ustr ''/data/talk.wav'') (ustr ''english'') (ustr ''summary'') demo_world =
   (Returned (ustr ''/tmp/talk.mp3''), Absent, NotRun)"
  by (simp add: stage_outcomes_def stage_of_def eval_defs)

lemma compressed_file: "fs world_compressed (ustr ''/tmp/talk.mp3'') = Some ''mp3''"
  by (simp add: world_compressed_def)

lemma no_compressed_file: "fs demo_world (ustr ''/tmp/talk.mp3'') = None"
  by (simp add: demo_world_def ustr_def)

theorem invalid_mode_result_witness:
  "invalid_mode demo_env (ustr ''summary'') \<and>
   stage_outcomes (media_processor demo_env) (aigc_processor demo_env) (markdown_to_pdf demo_env)
     demo_env (ustr ''/data/talk.wav'') (ustr ''english'') (ustr ''summary'') demo_world =
     (Returned (ustr ''/tmp/talk.mp3''), Absent, NotRun) \<and>
   fst (process_media demo_env (ustr ''/data/talk.wav'') (ustr ''english'') (ustr ''summary'') demo_world)
     = Val (Some (ustr ''/tmp/talk.mp3''), None) \<and>
   configured demo_env \<and>
   fs world_compressed (ustr ''/tmp/talk.mp3'') = Some ''mp3'' \<and>
   decode demo_env (ustr ''/tmp/talk.mp3'') ''mp3'' = Inr 90 \<and>
   aigc_processor demo_env (ustr ''/tmp/talk.mp3'') (ustr ''english'') (ustr ''summary'') demo_task_id
       world_compressed =
     (Val None, world_compressed\<lparr>logged := logged world_compressed @
        [(ERROR, tagged demo_task_id (ustr ''Invalid processing mode: '' @ ustr ''summary''))]\<rparr>) \<and>
   invalid_mode env_configure_fails (ustr ''summary'') \<and>
   api_key env_configure_fails = Some (ustr ''key'') \<and> ustr ''key'' \<noteq> [] \<and>
   genai_configure env_configure_fails (ustr ''key'') = Some bad_key \<and>
   aigc_processor env_configure_fails (ustr ''/tmp/talk.mp3'') (ustr ''english'') (ustr ''summary'')
       demo_task_id world_compressed =
     (Val None, ai_failed (ustr ''summary'') demo_task_id bad_key world_compressed) \<and>
   fs demo_world (ustr ''/tmp/talk.mp3'') = None \<and>
   aigc_processor demo_env (ustr ''/tmp/talk.mp3'') (ustr ''english'') (ustr ''summary'') demo_task_id
       demo_world =
     (Val None, ai_failed (ustr ''summary'') demo_task_id (file_not_found (ustr ''/tmp/talk.mp3''))
        demo_world) \<and>
   invalid_mode env_probe_fails (ustr ''summary'') \<and>
   configured env_probe_fails \<and>
   decode env_probe_fails (ustr ''/tmp/talk.mp3'') ''mp3'' = Inl bad_audio \<and>
   aigc_processor env_probe_fails (ustr ''/tmp/talk.mp3'') (ustr ''english'') (ustr ''summary'')
       demo_task_id world_compressed =
     (Val None, ai_failed (ustr ''summary'') demo_task_id bad_audio world_compressed)"
proof -
  let ?c = "ustr ''/tmp/talk.mp3''"
  note t = invalid_mode_result [of demo_env "ustr ''summary''" ?c
      "ustr ''english''" demo_task_id world_compressed "ustr ''/data/talk.wav''" demo_world]
  note tk = invalid_mode_result [of env_configure_fails "ustr ''summary''" ?c
      "ustr ''english''" demo_task_id world_compressed "ustr ''/data/talk.wav''" demo_world]
  note tm = invalid_mode_result [of demo_env "ustr ''summary''" ?c
      "ustr ''english''" demo_task_id demo_world "ustr ''/data/talk.wav''" demo_world]
  note td = invalid_mode_result [of env_probe_fails "ustr ''summary''" ?c
      "ustr ''english''" demo_task_id world_compressed "ustr ''/data/talk.wav''" demo_world]
  have k: "configured demo_env"
    by (simp add: configured_def demo_sel)
  have d: "decode demo_env ?c ''mp3'' = Inr 90"
    by (simp add: demo_sel)
  from t demo_invalid_mode(1) demo_summary_outcomes
  have p: "fst (process_media demo_env (ustr ''/data/talk.wav'') (ustr ''english'') (ustr ''summary'') demo_world)
     = Val (Some ?c, None)"
    by blast
  from t demo_invalid_mode(1) k compressed_file d
  have a: "aigc_processor demo_env ?c (ustr ''english'') (ustr ''summary'') demo_task_id world_compressed =
     (Val None, world_compressed\<lparr>logged := logged world_compressed @
        [(ERROR, tagged demo_task_id (ustr ''Invalid processing mode: '' @ ustr ''summary''))]\<rparr>)"
    by blast
  have k1: "api_key env_configure_fails = Some (ustr ''key'')"
    by (simp add: env_configure_fails_def)
  have k2: "ustr ''key'' \<noteq> []"
    by (simp add: ustr_def)
  have k3: "genai_configure env_configure_fails (ustr ''key'') = Some bad_key"
    by (simp add: env_configure_fails_def)
  from tk demo_invalid_mode(3) k1 k2 k3
  have ak: "aigc_processor env_configure_fails ?c (ustr ''english'') (ustr ''summary'')
       demo_task_id world_compressed =
     (Val None, ai_failed (ustr ''summary'') demo_task_id bad_key world_compressed)"
    by blast
  from tm demo_invalid_mode(1) k no_compressed_file
  have am: "aigc_processor demo_env ?c (ustr ''english'') (ustr ''summary'') demo_task_id demo_world =
     (Val None, ai_failed (ustr ''summary'') demo_task_id (file_not_found ?c) demo_world)"
    by blast
  have kp: "configured env_probe_fails"
    by (simp add: configured_def env_probe_fails_def demo_sel)
  have dp: "decode env_probe_fails ?c ''mp3'' = Inl bad_audio"
    by (simp add: env_probe_fails_def)
  from td demo_invalid_mode(2) kp compressed_file dp
  have ad: "aigc_processor env_probe_fails ?c (ustr ''english'') (ustr ''summary'')
       demo_task_id world_compressed =
     (Val None, ai_failed (ustr ''summary'') demo_task_id bad_audio world_compressed)"
    by blast
  from demo_invalid_mode demo_summary_outcomes p k compressed_file d a k1 k2 k3 ak
    no_compressed_file am kp dp ad
  show ?thesis
    by (intro conjI)
qed

text \<open>
  C8, as stated, fails: here acquisition returns the compressed file and the mode is
  \<^verbatim>\<open>summary\<close>, but opening the compressed file for its duration raises before the mode
  is looked at, so the error logged is that one and no line speaks of an invalid mode.
\<close>

theorem invalid_mode_not_logged_counterexample:
  "invalid_mode env_probe_fails (ustr ''summary'') \<and>
   fst (process_media env_probe_fails (ustr ''/data/talk.wav'') (ustr ''english'') (ustr ''summary'') demo_world)
     = Val (Some (ustr ''/tmp/talk.mp3''), None) \<and>
   logged (snd (process_media env_probe_fails (ustr ''/data/talk.wav'') (ustr ''english'')
       (ustr ''summary'') demo_world)) =
     [(INFO, tagged demo_task_id (ustr ''Task started: summary in english'')),
      (INFO, tagged demo_task_id (ustr ''Compressing audio: /data/talk.wav'')),
      (ERROR, tagged demo_task_id (ustr ''AI summary processing failed: failed to read the duration''))]"
  by (simp add: env_probe_fails_def bad_audio_def demo_task_id_def invalid_mode_def str_exn_def eval_defs)

section \<open>Classification of the input\<close>

lemma nullable_lang: "nullable r \<longleftrightarrow> [] \<in> lang r"
  by (induction r) (auto intro: star_empty)

lemma star_cons_split:
  "x \<in> star L \<Longrightarrow> x = c # u \<Longrightarrow> \<exists>v w. u = v @ w \<and> c # v \<in> L \<and> w \<in> star L"
proof (induction rule: star.induct)
  case star_empty
  then show ?case by simp
next
  case (star_step a b)
  show ?case
  proof (cases a)
    case Nil
    with star_step show ?thesis by simp
  next
    case (Cons a0 a')
    with star_step.prems have "a0 = c" and "u = a' @ b" by simp_all
    with Cons star_step.hyps show ?thesis by blast
  qed
qed

lemma star_cons: "c # u \<in> star L \<longleftrightarrow> (\<exists>v w. u = v @ w \<and> c # v \<in> L \<and> w \<in> star L)"
proof
  assume "c # u \<in> star L"
  then show "\<exists>v w. u = v @ w \<and> c # v \<in> L \<and> w \<in> star L"
    by (rule star_cons_split) simp
next
  assume "\<exists>v w. u = v @ w \<and> c # v \<in> L \<and> w \<in> star L"
  then obtain v w where "u = v @ w" and "c # v \<in> L" and "w \<in> star L" by blast
  then show "c # u \<in> star L"
    using star_step [of "c # v" L w] by simp
qed

lemma deriv_lang: "u \<in> lang (deriv c r) \<longleftrightarrow> c # u \<in> lang r"
proof (induction r arbitrary: u)
  case (Seq r s)
  then show ?case
    by (auto simp: nullable_lang Cons_eq_append_conv)
next
  case (Star r)
  then show ?case
    by (auto simp: star_cons)
qed auto

text \<open>\<open>re_match\<close> decides whether the pattern matches a prefix of the string.\<close>

lemma re_match_lang: "re_match r s \<longleftrightarrow> (\<exists>u v. s = u @ v \<and> u \<in> lang r)"
proof (induction s arbitrary: r)
  case Nil
  then show ?case by (simp add: nullable_lang)
next
  case (Cons c cs)
  have "(\<exists>u v. c # cs = u @ v \<and> u \<in> lang r) \<longleftrightarrow>
        [] \<in> lang r \<or> (\<exists>u v. cs = u @ v \<and> c # u \<in> lang r)"
    by (auto simp: Cons_eq_append_conv)
  with Cons show ?case
    by (simp add: nullable_lang deriv_lang)
qed

lemmas match_defs = is_youtube_url_def youtube_regex_def is_url_def url_regex_def opt_def chr_def
  plus_def hex_digit_def isdecimal_def is_word_def isalnum_def latin1_alnum_def ustr_def

lemma example_youtube: "is_youtube_url (ustr ''youtube.com/watch?v=x'')"
  by (simp add: match_defs)

lemma example_generic:
  "\<not> is_youtube_url (ustr ''http://example.com/a.mp4'')"
  "is_url U (ustr ''http://example.com/a.mp4'')"
  by (simp_all add: match_defs)

lemma example_invalid:
  "\<not> is_youtube_url (ustr ''/tmp/missing.mp4'')"
  "\<not> is_url U (ustr ''/tmp/missing.mp4'')"
  by (simp_all add: match_defs)

text \<open>
  C4, as the code has it. A string that is not the path of an existing file and of which
  a prefix is in the language of the pattern, letter case as written, is classified as a
  streaming URL, and acquisition is then \<^verbatim>\<open>__process_youtube\<close>. Of the three examples,
  each is classified as the specification says when it does not name an existing file.
\<close>

theorem streaming_url_classification:
  "(\<not> isfile w s \<and> (\<exists>u v. s = u @ v \<and> u \<in> lang youtube_regex) \<longrightarrow>
      classify env w s = StreamingUrl \<and>
      media_processor env s task_id w = process_youtube env s task_id w) \<and>
   (\<not> isfile w (ustr ''youtube.com/watch?v=x'') \<longrightarrow>
      classify env w (ustr ''youtube.com/watch?v=x'') = StreamingUrl) \<and>
   (\<not> isfile w (ustr ''http://example.com/a.mp4'') \<longrightarrow>
      classify env w (ustr ''http://example.com/a.mp4'') = GenericUrl) \<and>
   (\<not> isfile w (ustr ''/tmp/missing.mp4'') \<longrightarrow>
      classify env w (ustr ''/tmp/missing.mp4'') = Invalid)"
proof (intro conjI impI)
  assume a: "\<not> isfile w s \<and> (\<exists>u v. s = u @ v \<and> u \<in> lang youtube_regex)"
  then have "is_youtube_url s"
    by (simp add: is_youtube_url_def re_match_lang)
  with a show c: "classify env w s = StreamingUrl"
    by (simp add: classify_def)
  then show "media_processor env s task_id w = process_youtube env s task_id w"
    by (simp add: media_processor_dispatch)
next
  assume "\<not> isfile w (ustr ''youtube.com/watch?v=x'')"
  then show "classify env w (ustr ''youtube.com/watch?v=x'') = StreamingUrl"
    by (simp add: classify_def example_youtube)
next
  assume "\<not> isfile w (ustr ''http://example.com/a.mp4'')"
  then show "classify env w (ustr ''http://example.com/a.mp4'') = GenericUrl"
    by (simp add: classify_def example_generic)
next
  assume "\<not> isfile w (ustr ''/tmp/missing.mp4'')"
  then show "classify env w (ustr ''/tmp/missing.mp4'') = Invalid"
    by (simp add: classify_def example_invalid)
qed

lemma demo_no_such_files:
  "\<not> isfile demo_world (ustr ''youtube.com/watch?v=x'')"
  "\<not> isfile demo_world (ustr ''http://example.com/a.mp4'')"
  "\<not> isfile demo_world (ustr ''/tmp/missing.mp4'')"
  by (simp_all add: isfile_def demo_world_def ustr_def)

theorem streaming_url_classification_witness:
  "\<not> isfile demo_world (ustr ''youtube.com/watch?v=x'') \<and>
   (\<exists>u v. ustr ''youtube.com/watch?v=x'' = u @ v \<and> u \<in> lang youtube_regex) \<and>
   classify demo_env demo_world (ustr ''youtube.com/watch?v=x'') = StreamingUrl \<and>
   media_processor demo_env (ustr ''youtube.com/watch?v=x'') demo_task_id demo_world =
     process_youtube demo_env (ustr ''youtube.com/watch?v=x'') demo_task_id demo_world \<and>
   \<not> isfile demo_world (ustr ''http://example.com/a.mp4'') \<and>
   classify demo_env demo_world (ustr ''http://example.com/a.mp4'') = GenericUrl \<and>
   \<not> isfile demo_world (ustr ''/tmp/missing.mp4'') \<and>
   classify demo_env demo_world (ustr ''/tmp/missing.mp4'') = Invalid"
proof -
  note t = streaming_url_classification [of demo_world "ustr ''youtube.com/watch?v=x''" demo_env demo_task_id]
  have l: "\<exists>u v. ustr ''youtube.com/watch?v=x'' = u @ v \<and> u \<in> lang youtube_regex"
    using example_youtube by (simp add: is_youtube_url_def re_match_lang)
  from t demo_no_such_files(1) l
  have c: "classify demo_env demo_world (ustr ''youtube.com/watch?v=x'') = StreamingUrl \<and>
   media_processor demo_env (ustr ''youtube.com/watch?v=x'') demo_task_id demo_world =
     process_youtube demo_env (ustr ''youtube.com/watch?v=x'') demo_task_id demo_world"
    by blast
  from t demo_no_such_files(2)
  have g: "classify demo_env demo_world (ustr ''http://example.com/a.mp4'') = GenericUrl"
    by blast
  from t demo_no_such_files(3)
  have i: "classify demo_env demo_world (ustr ''/tmp/missing.mp4'') = Invalid"
    by blast
  from demo_no_such_files l c g i show ?thesis
    by (intro conjI) simp_all
qed

text \<open>
  C4, as stated, fails twice. The pattern is matched with no flag, so a host written
  \<^verbatim>\<open>YouTube.com\<close>, which differs from a matching string only in the case of two
  letters, is not recognised and the input is invalid. And the test for an existing file
  comes first: a matching string that names an existing file is a local file.
\<close>

theorem not_streaming_counterexample:
  "lower (uni demo_env) (ustr ''YouTube.com/watch?v=x'') = ustr ''youtube.com/watch?v=x'' \<and>
   is_youtube_url (ustr ''youtube.com/watch?v=x'') \<and>
   classify demo_env demo_world (ustr ''YouTube.com/watch?v=x'') = Invalid \<and>
   is_youtube_url (ustr ''youtube.com/talk.wav'') \<and>
   classify demo_env world_with_dir (ustr ''youtube.com/talk.wav'') = LocalFile"
  by (simp add: classify_def isfile_def world_with_dir_def lower_def lower_char_def demo_sel match_defs)

section \<open>Fenced code blocks\<close>

lemma startswith_fence_iff: "startswith s fence \<longleftrightarrow> (\<exists>r. s = 96 # 96 # 96 # r)"
proof
  assume a: "startswith s fence"
  then have "3 \<le> length s" by (rule startswith_fence_length)
  then obtain a b c r where s: "s = a # b # c # r"
    by (metis Suc_le_length_iff numeral_3_eq_3)
  with a show "\<exists>r. s = 96 # 96 # 96 # r"
    by (simp add: startswith_def fence_def)
next
  assume "\<exists>r. s = 96 # 96 # 96 # r"
  then show "startswith s fence"
    by (auto simp: startswith_def fence_def)
qed

lemma no_match_across:
  assumes "\<not> has_fence x" and "x \<noteq> []" and "last x \<noteq> 96"
  shows "\<not> startswith (x @ y) fence"
proof
  assume "startswith (x @ y) fence"
  then obtain r where r: "x @ y = 96 # 96 # 96 # r"
    unfolding startswith_fence_iff by blast
  show False
  proof (cases x)
    case Nil
    with assms show ?thesis by simp
  next
    case a: (Cons a x1)
    show ?thesis
    proof (cases x1)
      case Nil
      with a r assms show ?thesis by simp
    next
      case b: (Cons b x2)
      show ?thesis
      proof (cases x2)
        case Nil
        with a b r assms show ?thesis by simp
      next
        case (Cons c x3)
        with a b r have "x = 96 # 96 # 96 # x3" by simp
        with assms(1) show ?thesis by (simp add: startswith_fence_iff)
      qed
    qed
  qed
qed

lemma sub_open_skip:
  "\<not> has_fence x \<Longrightarrow> x = [] \<or> last x \<noteq> 96 \<Longrightarrow> sub_open (x @ y) = x @ sub_open y"
proof (induction x)
  case Nil
  then show ?case by simp
next
  case (Cons c x)
  from Cons.prems have "\<not> startswith ((c # x) @ y) fence"
    by (intro no_match_across) auto
  then have m: "match_open (c # x @ y) = None"
    by (simp add: match_open_def)
  from Cons.prems have "\<not> has_fence x" and "x = [] \<or> last x \<noteq> 96"
    by (auto split: if_splits)
  with Cons.IH have "sub_open (x @ y) = x @ sub_open y" by blast
  with m show ?case by simp
qed

lemma sub_fence_skip:
  "\<not> has_fence x \<Longrightarrow> x = [] \<or> last x \<noteq> 96 \<Longrightarrow> sub_fence (x @ y) = x @ sub_fence y"
proof (induction x)
  case Nil
  then show ?case by simp
next
  case (Cons c x)
  from Cons.prems have "\<not> startswith ((c # x) @ y) fence"
    by (intro no_match_across) auto
  then have m: "match_fence (c # x @ y) = None"
    by (simp add: match_fence_def)
  from Cons.prems have "\<not> has_fence x" and "x = [] \<or> last x \<noteq> 96"
    by (auto split: if_splits)
  with Cons.IH have "sub_fence (x @ y) = x @ sub_fence y" by blast
  with m show ?case by simp
qed

lemma no_fence_append:
  "\<not> has_fence x \<Longrightarrow> x = [] \<or> last x \<noteq> 96 \<Longrightarrow> \<not> has_fence y \<Longrightarrow> \<not> has_fence (x @ y)"
proof (induction x)
  case Nil
  then show ?case by simp
next
  case (Cons c x)
  from Cons.prems have "\<not> startswith ((c # x) @ y) fence"
    by (intro no_match_across) auto
  moreover from Cons.prems have "\<not> has_fence x" and "x = [] \<or> last x \<noteq> 96"
    by (auto split: if_splits)
  with Cons.IH Cons.prems have "\<not> has_fence (x @ y)" by blast
  ultimately show ?case by simp
qed

lemma match_open_fence:
  "\<forall>c \<in> set tag. ascii_letter c \<Longrightarrow> match_open (fence @ tag @ 10 # rest) = Some rest"
proof -
  assume t: "\<forall>c \<in> set tag. ascii_letter c"
  have "\<not> ascii_letter 10" by (simp add: ascii_letter_def)
  with t have "dropWhile ascii_letter (tag @ 10 # rest) = 10 # rest"
    by (simp add: dropWhile_append2)
  then show ?thesis
    by (simp add: match_open_def startswith_def fence_def)
qed

lemma sub_open_fence_block:
  "\<forall>c \<in> set tag. ascii_letter c \<Longrightarrow> sub_open (fence @ tag @ 10 # rest) = sub_open rest"
proof -
  assume t: "\<forall>c \<in> set tag. ascii_letter c"
  have "sub_open (96 # 96 # 96 # tag @ 10 # rest) = sub_open rest"
    using match_open_fence [OF t, of rest] by (simp add: fence_def)
  then show ?thesis by (simp add: fence_def)
qed

lemma sub_open_fence_end: "sub_open fence = fence"
  by (simp add: fence_def match_open_def startswith_def)

lemma sub_fence_fence_end: "sub_fence fence = []"
  by (simp add: fence_def match_fence_def startswith_def)

lemma clean_block_inner:
  assumes t: "\<forall>c \<in> set tag. ascii_letter c"
    and p: "\<not> has_fence pre" "pre = [] \<or> last pre \<noteq> 96"
    and b: "\<not> has_fence body" "body = [] \<or> last body \<noteq> 96"
  shows "sub_fence (sub_open (pre @ fence @ tag @ [10] @ body @ fence @ [10] @ rest)) =
           pre @ body @ sub_fence (sub_open rest)"
    and "sub_fence (sub_open (pre @ fence @ tag @ [10] @ body @ fence)) = pre @ body"
proof -
  have nl: "match_open (fence @ [] @ 10 # rest) = Some rest"
    by (rule match_open_fence) simp
  have close: "sub_open (fence @ 10 # rest) = sub_open rest"
    using sub_open_fence_block [of "[]" rest] by simp
  have pb: "\<not> has_fence (pre @ body)"
    using p b by (simp add: no_fence_append)
  have pbl: "pre @ body = [] \<or> last (pre @ body) \<noteq> 96"
    using p b by (cases "body = []") auto
  have "sub_open (pre @ fence @ tag @ [10] @ body @ fence @ [10] @ rest) =
          pre @ sub_open (fence @ tag @ 10 # (body @ fence @ 10 # rest))"
    using p by (simp add: sub_open_skip)
  also have "\<dots> = pre @ sub_open (body @ fence @ 10 # rest)"
    using t by (simp only: sub_open_fence_block)
  also have "\<dots> = pre @ body @ sub_open (fence @ 10 # rest)"
    using b by (simp add: sub_open_skip)
  also have "\<dots> = (pre @ body) @ sub_open rest"
    by (simp add: close)
  finally have 1: "sub_open (pre @ fence @ tag @ [10] @ body @ fence @ [10] @ rest) =
      (pre @ body) @ sub_open rest" .
  show "sub_fence (sub_open (pre @ fence @ tag @ [10] @ body @ fence @ [10] @ rest)) =
           pre @ body @ sub_fence (sub_open rest)"
    unfolding 1 using sub_fence_skip [OF pb pbl, of "sub_open rest"] by simp
  have "sub_open (pre @ fence @ tag @ [10] @ body @ fence) =
          pre @ sub_open (fence @ tag @ 10 # (body @ fence))"
    using p by (simp add: sub_open_skip)
  also have "\<dots> = pre @ sub_open (body @ fence)"
    using t by (simp only: sub_open_fence_block)
  also have "\<dots> = (pre @ body) @ fence"
    using b by (simp add: sub_open_skip sub_open_fence_end)
  finally have 2: "sub_open (pre @ fence @ tag @ [10] @ body @ fence) = (pre @ body) @ fence" .
  show "sub_fence (sub_open (pre @ fence @ tag @ [10] @ body @ fence)) = pre @ body"
    unfolding 2 using sub_fence_skip [OF pb pbl, of fence] by (simp add: sub_fence_fence_end)
qed

lemma sub_fence_head:
  "sub_fence s = 96 # r \<Longrightarrow> \<exists>s'. s = 96 # s'"
proof (induction s arbitrary: r rule: sub_fence.induct)
  case 1
  then show ?case by simp
next
  case (2 c cs)
  show ?case
  proof (cases "match_fence (c # cs)")
    case None
    with "2.prems" show ?thesis by simp
  next
    case (Some rest)
    then have "startswith (c # cs) fence"
      by (simp add: match_fence_def split: if_splits)
    then show ?thesis
      by (simp add: startswith_fence_iff)
  qed
qed

lemma sub_fence_head2:
  assumes "sub_fence s = 96 # 96 # r"
  shows "\<exists>s'. s = 96 # 96 # s'"
proof (cases s)
  case Nil
  with assms show ?thesis by simp
next
  case (Cons c cs)
  show ?thesis
  proof (cases "match_fence (c # cs)")
    case None
    with assms Cons have "c = 96" and "sub_fence cs = 96 # r" by simp_all
    with sub_fence_head [of cs r] Cons show ?thesis by auto
  next
    case (Some rest)
    then have "startswith (c # cs) fence"
      by (simp add: match_fence_def split: if_splits)
    with Cons show ?thesis
      by (auto simp: startswith_fence_iff)
  qed
qed

lemma sub_fence_no_fence: "\<not> has_fence (sub_fence s)"
proof (induction s rule: sub_fence.induct)
  case 1
  then show ?case by simp
next
  case (2 c cs)
  show ?case
  proof (cases "match_fence (c # cs)")
    case None
    then have ns: "\<not> startswith (c # cs) fence"
      by (simp add: match_fence_def split: if_splits)
    from None "2.IH" have ih: "\<not> has_fence (sub_fence cs)" by simp
    have "\<not> startswith (c # sub_fence cs) fence"
    proof
      assume "startswith (c # sub_fence cs) fence"
      then obtain r where "c = 96" and "sub_fence cs = 96 # 96 # r"
        by (auto simp: startswith_fence_iff)
      with sub_fence_head2 [of cs r] ns show False
        by (auto simp: startswith_fence_iff)
    qed
    with None ih show ?thesis by simp
  next
    case (Some rest)
    with "2.IH" show ?thesis by simp
  qed
qed

lemma has_fence_dropWhile: "has_fence (dropWhile P s) \<Longrightarrow> has_fence s"
  by (induction s) (auto split: if_splits)

lemma startswith_append: "startswith x p \<Longrightarrow> startswith (x @ y) p"
proof -
  assume a: "startswith x p"
  then have "length p \<le> length x" by (rule startswith_length)
  with a show ?thesis by (simp add: startswith_def)
qed

lemma has_fence_prefix: "has_fence x \<Longrightarrow> has_fence (x @ y)"
  by (induction x) (auto dest: startswith_append [where y = y])

lemma has_fence_strip: "has_fence (strip s) \<Longrightarrow> has_fence s"
proof -
  let ?t = "dropWhile isspace s"
  assume a: "has_fence (strip s)"
  have "?t = rev (takeWhile isspace (rev ?t) @ dropWhile isspace (rev ?t))"
    by (simp only: takeWhile_dropWhile_id rev_rev_ident)
  also have "\<dots> = rev (dropWhile isspace (rev ?t)) @ rev (takeWhile isspace (rev ?t))"
    by (rule rev_append)
  finally have "?t = strip s @ rev (takeWhile isspace (rev ?t))"
    by (simp only: strip_def)
  with a have "has_fence ?t"
    by (metis has_fence_prefix)
  then show ?thesis by (rule has_fence_dropWhile)
qed

lemma clean_markdown_no_fence: "\<not> has_fence (clean_markdown text)"
  unfolding clean_markdown_def using has_fence_strip sub_fence_no_fence by blast

lemmas clean_defs = clean_markdown_def match_open_def match_fence_def startswith_def fence_def
  ascii_letter_def strip_def isspace_def ustr_def

text \<open>
  C9, as the code has it. Take a fenced block whose language tag is made of ASCII letters
  (or is empty), in a text where neither what stands before the block nor the content of
  the block holds three backticks in a row or ends in a backtick. When the closing fence
  is followed by a newline, the cleaned text is the text before the block, the content of
  the block and the cleaned rest, with the white space at the two ends of the whole
  trimmed; when the closing fence ends the text, it is the text before the block and the
  content, trimmed. No cleaned text holds three backticks in a row. The example of the
  specification cleans to \<^verbatim>\<open>print(1)\<close>.
\<close>

theorem clean_markdown_fenced_block:
  "(list_all ascii_letter tag \<and> \<not> has_fence pre \<and> (pre = [] \<or> last pre \<noteq> 96) \<and>
    \<not> has_fence body \<and> (body = [] \<or> last body \<noteq> 96) \<longrightarrow>
      clean_markdown (pre @ fence @ tag @ [10] @ body @ fence @ [10] @ rest) =
        strip (pre @ body @ sub_fence (sub_open rest)) \<and>
      clean_markdown (pre @ fence @ tag @ [10] @ body @ fence) = strip (pre @ body)) \<and>
   \<not> has_fence (clean_markdown text) \<and>
   clean_markdown (ustr ''```python\<newline>print(1)\<newline>```'') = ustr ''print(1)''"
proof (intro conjI impI)
  assume a: "list_all ascii_letter tag \<and> \<not> has_fence pre \<and> (pre = [] \<or> last pre \<noteq> 96) \<and>
    \<not> has_fence body \<and> (body = [] \<or> last body \<noteq> 96)"
  then have t: "\<forall>c \<in> set tag. ascii_letter c"
    by (simp add: list_all_iff)
  from a t show "clean_markdown (pre @ fence @ tag @ [10] @ body @ fence @ [10] @ rest) =
        strip (pre @ body @ sub_fence (sub_open rest))"
    unfolding clean_markdown_def using clean_block_inner(1) [of tag pre body rest] by simp
  from a t show "clean_markdown (pre @ fence @ tag @ [10] @ body @ fence) = strip (pre @ body)"
    unfolding clean_markdown_def using clean_block_inner(2) [of tag pre body] by simp
next
  show "\<not> has_fence (clean_markdown text)"
    by (rule clean_markdown_no_fence)
next
  show "clean_markdown (ustr ''```python\<newline>print(1)\<newline>```'') = ustr ''print(1)''"
    by (simp add: clean_defs)
qed

theorem clean_markdown_fenced_block_witness:
  "list_all ascii_letter (ustr ''py'') \<and>
   \<not> has_fence (ustr ''a\<newline>'') \<and> last (ustr ''a\<newline>'') \<noteq> 96 \<and>
   \<not> has_fence (ustr ''b\<newline>'') \<and> last (ustr ''b\<newline>'') \<noteq> 96 \<and>
   clean_markdown (ustr ''a\<newline>'' @ fence @ ustr ''py'' @ [10] @ ustr ''b\<newline>'' @ fence @ [10] @ ustr ''c'') =
     ustr ''a\<newline>b\<newline>c'' \<and>
   clean_markdown (ustr ''a\<newline>'' @ fence @ ustr ''py'' @ [10] @ ustr ''b\<newline>'' @ fence) =
     ustr ''a\<newline>b''"
proof -
  note t = clean_markdown_fenced_block [of "ustr ''py''" "ustr ''a\<newline>''" "ustr ''b\<newline>''" "ustr ''c''"]
  have 1: "list_all ascii_letter (ustr ''py'')"
    by (simp add: ascii_letter_def ustr_def)
  have 2: "\<not> has_fence (ustr ''a\<newline>'')" "last (ustr ''a\<newline>'') \<noteq> 96"
    by (simp_all add: startswith_def fence_def ustr_def)
  have 3: "\<not> has_fence (ustr ''b\<newline>'')" "last (ustr ''b\<newline>'') \<noteq> 96"
    by (simp_all add: startswith_def fence_def ustr_def)
  have r: "sub_fence (sub_open (ustr ''c'')) = ustr ''c''"
    by (simp add: clean_defs)
  have s1: "strip (ustr ''a\<newline>'' @ ustr ''b\<newline>'' @ ustr ''c'') = ustr ''a\<newline>b\<newline>c''"
    by (simp add: strip_def isspace_def ustr_def)
  have s2: "strip (ustr ''a\<newline>'' @ ustr ''b\<newline>'') = ustr ''a\<newline>b''"
    by (simp add: strip_def isspace_def ustr_def)
  from t 1 2 3
  have "clean_markdown (ustr ''a\<newline>'' @ fence @ ustr ''py'' @ [10] @ ustr ''b\<newline>'' @ fence @ [10] @ ustr ''c'') =
          strip (ustr ''a\<newline>'' @ ustr ''b\<newline>'' @ sub_fence (sub_open (ustr ''c'')))"
    and "clean_markdown (ustr ''a\<newline>'' @ fence @ ustr ''py'' @ [10] @ ustr ''b\<newline>'' @ fence) =
          strip (ustr ''a\<newline>'' @ ustr ''b\<newline>'')"
    by blast+
  with r s1 s2 have c: "clean_markdown (ustr ''a\<newline>'' @ fence @ ustr ''py'' @ [10] @ ustr ''b\<newline>'' @ fence @ [10] @ ustr ''c'') =
     ustr ''a\<newline>b\<newline>c''"
    "clean_markdown (ustr ''a\<newline>'' @ fence @ ustr ''py'' @ [10] @ ustr ''b\<newline>'' @ fence) =
     ustr ''a\<newline>b''"
    by simp_all
  from 1 2 3 c show ?thesis
    by (intro conjI)
qed

text \<open>
  C9, as stated, fails for a language tag that is not made of letters: the first pattern
  does not match the opening fence, the second removes its backticks only, and the tag
  stays in the text.
\<close>

theorem language_tag_kept_counterexample:
  "clean_markdown (ustr ''```c++\<newline>x\<newline>```'') = ustr ''c++\<newline>x''"
  by (simp add: clean_defs)

end
